theory Spec2Isabelle
  imports Main
begin

section \<open>The pretty formatter of src/index.ts\<close>

text \<open>
  A shallow embedding of the class \<open>PrettyFormatter\<close>. The formatter listens to
  envelopes, resolves the test case attempt of each through collaborators of
  \<open>@cucumber/cucumber\<close>, keeps three fields between envelopes (\<open>uri\<close>,
  \<open>lastRuleId\<close>, \<open>indentOffset\<close>) and writes text with \<open>this.log\<close>.

  \<^item> Optional fields of the messages (\<open>x?: T\<close>, or a field the code guards with
    \<open>||\<close>, \<open>?.\<close> or a truthiness test) are \<open>option\<close> values.
  \<^item> Every call of \<open>this.log\<close> is one \<open>chunk\<close> of the output, kept in call order.
  \<^item> A \<open>throw\<close>, and a property read on \<open>undefined\<close>, is an \<open>error\<close> returned
    together with the formatter as the exception leaves it.
\<close>

subsection \<open>Enumerations and static tables\<close>

datatype themeItem =
    DataTable | DataTableBorder | DataTableContent | DocStringContent
  | DocStringDelimiter | FeatureDescription | FeatureKeyword | FeatureName
  | Location | RuleKeyword | RuleName | ScenarioKeyword | ScenarioName
  | StepKeyword | StepMessage | StepStatus | StepText | Tag

fun themeItemIndentations :: "themeItem \<Rightarrow> nat" where
  "themeItemIndentations DataTable = 6"
| "themeItemIndentations DataTableBorder = 0"
| "themeItemIndentations DataTableContent = 0"
| "themeItemIndentations DocStringContent = 6"
| "themeItemIndentations DocStringDelimiter = 6"
| "themeItemIndentations FeatureDescription = 2"
| "themeItemIndentations FeatureKeyword = 0"
| "themeItemIndentations FeatureName = 0"
| "themeItemIndentations Location = 0"
| "themeItemIndentations RuleKeyword = 2"
| "themeItemIndentations RuleName = 0"
| "themeItemIndentations ScenarioKeyword = 2"
| "themeItemIndentations ScenarioName = 0"
| "themeItemIndentations StepKeyword = 4"
| "themeItemIndentations StepMessage = 6"
| "themeItemIndentations StepStatus = 4"
| "themeItemIndentations StepText = 0"
| "themeItemIndentations Tag = 0"

text \<open>\<open>Status\<close> of \<open>@cucumber/cucumber\<close>: a string enumeration, every member truthy.\<close>

datatype status = AMBIGUOUS | FAILED | PASSED | PENDING | SKIPPED | UNDEFINED | UNKNOWN

text \<open>\<open>Status[status]\<close>: the member's name.\<close>

fun statusName :: "status \<Rightarrow> string" where
  "statusName AMBIGUOUS = ''AMBIGUOUS''"
| "statusName FAILED = ''FAILED''"
| "statusName PASSED = ''PASSED''"
| "statusName PENDING = ''PENDING''"
| "statusName SKIPPED = ''SKIPPED''"
| "statusName UNDEFINED = ''UNDEFINED''"
| "statusName UNKNOWN = ''UNKNOWN''"

text \<open>\<open>String.prototype.toLowerCase\<close> on ASCII text.\<close>

definition toLowerCase :: "string \<Rightarrow> string" where
  "toLowerCase s =
     map (\<lambda>c. let n = (of_char c :: nat)
               in if 65 \<le> n \<and> n \<le> 90 then char_of (n + 32) else c) s"

subsection \<open>Messages\<close>

record tag =
  tag_name :: string

record location =
  location_line :: "int option"

record feature =
  feature_tags :: "tag list option"
  feature_keyword :: "string option"
  feature_name :: "string option"
  feature_location :: "location option"
  feature_description :: "string option"

record rule =
  rule_id :: string
  rule_keyword :: string
  rule_name :: "string option"

record scenario =
  scenario_keyword :: "string option"
  scenario_location :: "location option"

record docString =
  docString_delimiter :: string
  docString_content :: string

record tableCell =
  cell_value :: "string option"

record tableRow =
  row_cells :: "tableCell list option"

record dataTable =
  dataTable_rows :: "tableRow list"

text \<open>\<open>messages.Step\<close>, a step of the Gherkin document.\<close>

record gherkinStep =
  step_keyword :: string
  step_docString :: "docString option"
  step_dataTable :: "dataTable option"

record gherkinDocument =
  doc_uri :: "string option"
  doc_feature :: "feature option"

record pickleStep =
  pickleStep_astNodeIds :: "string list"
  pickleStep_text :: string

record pickle =
  pickle_astNodeIds :: "string list option"
  pickle_tags :: "tag list option"
  pickle_name :: "string option"

record testStep =
  testStep_id :: "string option"
  testStep_pickleStepId :: "string option"

record testCase =
  testCase_testSteps :: "testStep list option"

text \<open>What \<open>eventDataCollector.getTestCaseAttempt\<close> returns.\<close>

record testCaseAttempt =
  attempt_gherkinDocument :: gherkinDocument
  attempt_pickle :: pickle
  attempt_testCase :: testCase

record testCaseStarted =
  testCaseStarted_id :: "string option"

record testStepStarted =
  testStepStarted_testCaseStartedId :: "string option"
  testStepStarted_testStepId :: "string option"

record testStepResult =
  result_message :: "string option"
  result_status :: "status option"

record testStepFinished =
  testStepFinished_testCaseStartedId :: "string option"
  testStepFinished_testStepId :: "string option"
  testStepFinished_testStepResult :: "testStepResult option"

record testCaseFinished =
  testCaseFinished_testCaseStartedId :: "string option"

record envelope =
  envelope_testCaseStarted :: "testCaseStarted option"
  envelope_testStepStarted :: "testStepStarted option"
  envelope_testStepFinished :: "testStepFinished option"
  envelope_testCaseFinished :: "testCaseFinished option"

subsection \<open>Collaborators\<close>

text \<open>
  Code the formatter calls that is not part of src/index.ts, taken as parameters: the
  event data collector, the lookup tables of \<open>formatterHelpers\<close> (keyed by AST node
  identifier or pickle step identifier), \<open>formatLocation\<close> (with the working directory
  applied), the theme of \<open>./theme\<close>, the colour functions of the base class,
  \<open>cli-table3\<close> with the formatter's table layout, \<open>ts-dedent\<close>,
  \<open>String.prototype.trim\<close>, the two symbols of \<open>figures\<close> and \<open>os.EOL\<close>.
  \<open>getTestCaseAttempt\<close> is \<open>None\<close> where the collector fails on an unknown
  identifier. \<open>getGherkinExampleRuleMap\<close>, \<open>getGherkinScenarioMap\<close> and
  \<open>getGherkinStepMap\<close> give the table that the builder makes of a document with a
  feature; what the builders do without one is \<open>gherkinLookup\<close> below.
\<close>

record env =
  getTestCaseAttempt :: "string \<Rightarrow> testCaseAttempt option"
  getGherkinExampleRuleMap :: "gherkinDocument \<Rightarrow> string \<rightharpoonup> rule"
  getGherkinScenarioMap :: "gherkinDocument \<Rightarrow> string \<rightharpoonup> scenario"
  getGherkinStepMap :: "gherkinDocument \<Rightarrow> string \<rightharpoonup> gherkinStep"
  getPickleStepMap :: "pickle \<Rightarrow> string \<rightharpoonup> pickleStep"
  formatLocation :: "string \<Rightarrow> int \<Rightarrow> string"
  indentStyleText :: "nat \<Rightarrow> themeItem \<Rightarrow> string list \<Rightarrow> string"
  colorForStatus :: "status \<Rightarrow> string \<Rightarrow> string"
  tableToString :: "string list list \<Rightarrow> string"
  dedent :: "string \<Rightarrow> string"
  trim :: "string \<Rightarrow> string"
  cross :: string
  tick :: string
  EOL :: string

fun marks :: "env \<Rightarrow> status \<Rightarrow> string" where
  "marks e AMBIGUOUS = cross e"
| "marks e FAILED = cross e"
| "marks e PASSED = tick e"
| "marks e PENDING = ''?''"
| "marks e SKIPPED = ''-''"
| "marks e UNDEFINED = ''?''"
| "marks e UNKNOWN = ''?''"

text \<open>
  The three lookup builders of \<open>GherkinDocumentParser\<close> start from
  \<open>gherkinDocument.feature.children\<close>: called on a document without a feature they
  read a property of \<open>undefined\<close> and raise, which is \<open>None\<close> here.
\<close>

definition gherkinLookup ::
  "(gherkinDocument \<Rightarrow> string \<rightharpoonup> 'a) \<Rightarrow> gherkinDocument \<Rightarrow> (string \<rightharpoonup> 'a) option" where
  "gherkinLookup build doc =
     (case doc_feature doc of None \<Rightarrow> None | Some f \<Rightarrow> Some (build doc))"

subsection \<open>JavaScript idioms\<close>

text \<open>\<open>s || d\<close> on an optional string: the empty string is falsy.\<close>

definition strOr :: "string option \<Rightarrow> string \<Rightarrow> string" where
  "strOr x d = (case x of None \<Rightarrow> d | Some s \<Rightarrow> if s = [] then d else s)"

text \<open>\<open>n || d\<close> on an optional number: zero is falsy.\<close>

definition numOr :: "int option \<Rightarrow> int \<Rightarrow> int" where
  "numOr x d = (case x of None \<Rightarrow> d | Some n \<Rightarrow> if n = 0 then d else n)"

text \<open>\<open>xs || []\<close> on an optional array: every array is truthy.\<close>

definition listOr :: "'a list option \<Rightarrow> 'a list" where
  "listOr x = (case x of None \<Rightarrow> [] | Some xs \<Rightarrow> xs)"

text \<open>\<open>xs[0]\<close>: \<open>undefined\<close> on the empty array.\<close>

definition index0 :: "'a list \<Rightarrow> 'a option" where
  "index0 xs = (case xs of [] \<Rightarrow> None | x # _ \<Rightarrow> Some x)"

text \<open>
  \<open>table[key]\<close> on a lookup table, with a key that may be \<open>undefined\<close>:
  the tables hold their entries under identifiers, so \<open>undefined\<close> finds nothing.
\<close>

definition lookup :: "(string \<rightharpoonup> 'a) \<Rightarrow> string option \<Rightarrow> 'a option" where
  "lookup table key = (case key of None \<Rightarrow> None | Some k \<Rightarrow> table k)"

subsection \<open>The formatter and its output\<close>

text \<open>
  One call of \<open>this.log\<close>: either the text \<open>theme.indentStyleText(indent, item, ...text)\<close>,
  kept with its arguments, or a literal string.
\<close>

datatype chunk = Styled nat themeItem "string list" | Raw string

fun chunkText :: "env \<Rightarrow> chunk \<Rightarrow> string" where
  "chunkText e (Styled indent item text) = indentStyleText e indent item text"
| "chunkText e (Raw s) = s"

record formatter =
  uri :: "string option"
  lastRuleId :: "string option"
  indentOffset :: nat
  out :: "chunk list"

text \<open>The fields as the constructor leaves them; nothing written yet.\<close>

definition init :: formatter where
  "init = \<lparr>uri = None, lastRuleId = None, indentOffset = 0, out = []\<rparr>"

datatype error = Error string | TypeError | UnknownAttempt

text \<open>The text written so far, as one string.\<close>

definition written :: "env \<Rightarrow> formatter \<Rightarrow> string" where
  "written e fm = concat (map (chunkText e) (out fm))"

text \<open>Appending the chunks of a render routine to the output.\<close>

definition log :: "chunk list \<Rightarrow> formatter \<Rightarrow> formatter" where
  "log cs fm = fm\<lparr>out := out fm @ cs\<rparr>"

subsection \<open>Render routines\<close>

text \<open>
  The render routines read the formatter and only write: each is the list of chunks it
  passes to \<open>this.log\<close>, in order.
\<close>

definition styleItem :: "formatter \<Rightarrow> nat \<Rightarrow> themeItem \<Rightarrow> string list \<Rightarrow> chunk" where
  "styleItem fm indent item text =
     Styled (if indent > 0 \<and> indentOffset fm > 0 then indent + indentOffset fm else indent)
       item text"

definition logItem :: "formatter \<Rightarrow> themeItem \<Rightarrow> string list \<Rightarrow> chunk" where
  "logItem fm item text = styleItem fm (themeItemIndentations item) item text"

definition newline :: "env \<Rightarrow> chunk" where
  "newline e = Raw (EOL e)"

definition renderTags :: "env \<Rightarrow> formatter \<Rightarrow> nat \<Rightarrow> tag list \<Rightarrow> chunk list" where
  "renderTags e fm indent tags =
     (let tagStrings =
            foldl (\<lambda>acc t. if tag_name t \<noteq> [] then acc @ [tag_name t] else acc) [] tags
      in case tagStrings of
           [] \<Rightarrow> []
         | firstTag # rest \<Rightarrow>
             styleItem fm indent Tag [firstTag]
               # concat (map (\<lambda>t. [Raw '' '', logItem fm Tag [t]]) rest)
               @ [newline e])"

definition renderLocation :: "env \<Rightarrow> formatter \<Rightarrow> int \<Rightarrow> chunk list" where
  "renderLocation e fm line =
     [logItem fm Location [''# '', formatLocation e (strOr (uri fm) '''') line]]"

definition renderFeatureHead :: "env \<Rightarrow> formatter \<Rightarrow> feature \<Rightarrow> chunk list" where
  "renderFeatureHead e fm f =
     renderTags e fm 0 (listOr (feature_tags f))
     @ [logItem fm FeatureKeyword [strOr (feature_keyword f) ''[feature]'', '':''],
        Raw '' '',
        logItem fm FeatureName [strOr (feature_name f) '''']]
     @ (case feature_location f of
          None \<Rightarrow> []
        | Some loc \<Rightarrow> Raw '' '' # renderLocation e fm (numOr (location_line loc) (- 1)))
     @ [newline e]
     @ (case feature_description f of
          None \<Rightarrow> []
        | Some d \<Rightarrow>
            if d = [] then []
            else [newline e, logItem fm FeatureDescription [dedent e (trim e d)], newline e])
     @ [newline e]"

definition renderRule :: "env \<Rightarrow> formatter \<Rightarrow> rule \<Rightarrow> chunk list" where
  "renderRule e fm r =
     [logItem fm RuleKeyword [rule_keyword r, '':''],
      Raw '' '',
      logItem fm RuleName [strOr (rule_name r) ''''],
      newline e,
      newline e]"

text \<open>
  \<open>renderScenarioHead\<close> raises where \<open>getGherkinScenarioMap\<close> does, throws when
  the pickle has no \<open>astNodeIds\<close>, and reads \<open>scenario.keyword\<close> of
  \<open>undefined\<close> when the lookup of the scenario fails; the tags are written before
  any of them.
\<close>

definition renderScenarioHead ::
  "env \<Rightarrow> formatter \<Rightarrow> gherkinDocument \<Rightarrow> pickle \<Rightarrow> error option \<times> chunk list" where
  "renderScenarioHead e fm doc p =
     (let tagLine = renderTags e fm 2 (listOr (pickle_tags p))
      in case gherkinLookup (getGherkinScenarioMap e) doc of
           None \<Rightarrow> (Some TypeError, tagLine)
         | Some gherkinScenarioMap \<Rightarrow>
             (case pickle_astNodeIds p of
                None \<Rightarrow> (Some (Error ''Pickle AST nodes missing''), tagLine)
              | Some ids \<Rightarrow>
                  (case lookup gherkinScenarioMap (index0 ids) of
                     None \<Rightarrow> (Some TypeError, tagLine)
                   | Some sc \<Rightarrow>
                       (None,
                        tagLine
                        @ [logItem fm ScenarioKeyword
                             [strOr (scenario_keyword sc) ''???'', '':''],
                           Raw '' '',
                           logItem fm ScenarioName [strOr (pickle_name p) '''']]
                        @ (if lookup gherkinScenarioMap (index0 ids) \<noteq> None
                           then Raw '' ''
                                  # renderLocation e fm
                                      (numOr (case scenario_location sc of
                                                None \<Rightarrow> None
                                              | Some loc \<Rightarrow> location_line loc) (- 1))
                           else [])
                        @ [newline e]))))"

subsection \<open>Event handlers\<close>

text \<open>
  Both handlers build a lookup before they test anything else (lines 163 and 186), so
  both raise on a document without a feature: \<open>onTestCaseStarted\<close> after its first
  \<open>if\<close>, which does nothing for such a document, and \<open>onTestStepStarted\<close>
  before it looks for the runtime step.
\<close>

definition onTestCaseStarted ::
  "env \<Rightarrow> testCaseStarted \<Rightarrow> formatter \<Rightarrow> error option \<times> formatter" where
  "onTestCaseStarted e ev fm =
     (case getTestCaseAttempt e (strOr (testCaseStarted_id ev) '''') of
        None \<Rightarrow> (Some UnknownAttempt, fm)
      | Some att \<Rightarrow>
          let doc = attempt_gherkinDocument att;
              p = attempt_pickle att;
              fm1 = (case doc_feature doc of
                       None \<Rightarrow> fm
                     | Some f \<Rightarrow>
                         if uri fm \<noteq> doc_uri doc
                         then let fm' = fm\<lparr>indentOffset := 0,
                                          uri := Some (strOr (doc_uri doc) ''''),
                                          lastRuleId := None\<rparr>
                              in log (renderFeatureHead e fm' f) fm'
                         else fm)
          in case gherkinLookup (getGherkinExampleRuleMap e) doc of
               None \<Rightarrow> (Some TypeError, fm1)
             | Some gherkinExampleRuleMap \<Rightarrow>
                 (case pickle_astNodeIds p of
                    None \<Rightarrow> (Some (Error ''Pickle AST nodes missing''), fm1)
                  | Some ids \<Rightarrow>
                      let fm2 = (case lookup gherkinExampleRuleMap (index0 ids) of
                                   None \<Rightarrow> fm1
                                 | Some r \<Rightarrow>
                                     if Some (rule_id r) \<noteq> lastRuleId fm1
                                     then let fm' = fm1\<lparr>indentOffset := 0\<rparr>
                                          in (log (renderRule e fm' r) fm')
                                               \<lparr>lastRuleId := Some (rule_id r),
                                                indentOffset := 2\<rparr>
                                     else fm1)
                      in case renderScenarioHead e fm2 doc p of
                           (err, cs) \<Rightarrow> (err, log cs fm2)))"

definition onTestStepStarted ::
  "env \<Rightarrow> testStepStarted \<Rightarrow> formatter \<Rightarrow> error option \<times> formatter" where
  "onTestStepStarted e ev fm =
     (case getTestCaseAttempt e (strOr (testStepStarted_testCaseStartedId ev) '''') of
        None \<Rightarrow> (Some UnknownAttempt, fm)
      | Some att \<Rightarrow>
          let pickleStepMap = getPickleStepMap e (attempt_pickle att)
          in case gherkinLookup (getGherkinStepMap e) (attempt_gherkinDocument att) of
               None \<Rightarrow> (Some TypeError, fm)
             | Some gherkinStepMap \<Rightarrow>
                 (case find (\<lambda>item. testStep_id item = testStepStarted_testStepId ev)
                         (listOr (testCase_testSteps (attempt_testCase att))) of
                    None \<Rightarrow> (None, fm)
                  | Some ts \<Rightarrow>
                      (case testStep_pickleStepId ts of
                         None \<Rightarrow> (None, fm)
                       | Some psid \<Rightarrow>
                           if psid = [] then (None, fm)
                           else
                             (case pickleStepMap psid of
                                None \<Rightarrow> (Some TypeError, fm)
                              | Some ps \<Rightarrow>
                                  (case lookup gherkinStepMap
                                          (index0 (pickleStep_astNodeIds ps)) of
                                     None \<Rightarrow> (Some TypeError, fm)
                                   | Some gs \<Rightarrow>
                                       (None,
                                        log
                                          ([logItem fm StepKeyword [step_keyword gs],
                                            Raw '' '',
                                            logItem fm StepText [pickleStep_text ps],
                                            newline e]
                                           @ (case step_docString gs of
                                                None \<Rightarrow> []
                                              | Some ds \<Rightarrow>
                                                  [logItem fm DocStringDelimiter
                                                     [docString_delimiter ds],
                                                   newline e,
                                                   logItem fm DocStringContent
                                                     [docString_content ds],
                                                   newline e,
                                                   logItem fm DocStringDelimiter
                                                     [docString_delimiter ds],
                                                   newline e])
                                           @ (case step_dataTable gs of
                                                None \<Rightarrow> []
                                              | Some dt \<Rightarrow>
                                                  [logItem fm DataTable
                                                     [tableToString e
                                                        (map (\<lambda>row.
                                                                map (\<lambda>cell.
                                                                       chunkText e
                                                                         (styleItem fm 0
                                                                            DataTableContent
                                                                            [strOr (cell_value cell) '''']))
                                                                  (listOr (row_cells row)))
                                                           (dataTable_rows dt))],
                                                   newline e]))
                                          fm))))))"

definition onTestStepFinished :: "env \<Rightarrow> testStepFinished \<Rightarrow> formatter \<Rightarrow> formatter" where
  "onTestStepFinished e ev fm =
     (let message = (case testStepFinished_testStepResult ev of
                       None \<Rightarrow> None
                     | Some r \<Rightarrow> result_message r);
          status = (case testStepFinished_testStepResult ev of
                      None \<Rightarrow> None
                    | Some r \<Rightarrow> result_status r)
      in case status of
           None \<Rightarrow> fm
         | Some st \<Rightarrow>
             if st \<noteq> PASSED
             then log
                    ([logItem fm StepStatus
                        [colorForStatus e st
                           (marks e st @ '' '' @ toLowerCase (statusName st))],
                      newline e]
                     @ (case message of
                          None \<Rightarrow> []
                        | Some m \<Rightarrow>
                            if m = [] then [] else [logItem fm StepMessage [m], newline e]))
                    fm
             else fm)"

definition onTestCaseFinished :: "env \<Rightarrow> testCaseFinished \<Rightarrow> formatter \<Rightarrow> formatter" where
  "onTestCaseFinished e ev fm = log [newline e] fm"

text \<open>
  \<open>parseEnvelope\<close> tests the four fields in order; a handler that throws ends the
  call there.
\<close>

definition parseEnvelope :: "env \<Rightarrow> envelope \<Rightarrow> formatter \<Rightarrow> error option \<times> formatter" where
  "parseEnvelope e v fm =
     (case (case envelope_testCaseStarted v of
              None \<Rightarrow> (None, fm)
            | Some ev \<Rightarrow> onTestCaseStarted e ev fm) of
        (Some err, fm1) \<Rightarrow> (Some err, fm1)
      | (None, fm1) \<Rightarrow>
          (case (case envelope_testStepStarted v of
                   None \<Rightarrow> (None, fm1)
                 | Some ev \<Rightarrow> onTestStepStarted e ev fm1) of
             (Some err, fm2) \<Rightarrow> (Some err, fm2)
           | (None, fm2) \<Rightarrow>
               let fm3 = (case envelope_testStepFinished v of
                            None \<Rightarrow> fm2
                          | Some ev \<Rightarrow> onTestStepFinished e ev fm2);
                   fm4 = (case envelope_testCaseFinished v of
                            None \<Rightarrow> fm3
                          | Some ev \<Rightarrow> onTestCaseFinished e ev fm3)
               in (None, fm4)))"

text \<open>
  The envelopes of a run, delivered in order. An error raised by a handler leaves the
  listener and ends the run; the formatter stays as the failed call left it.
\<close>

fun run :: "env \<Rightarrow> envelope list \<Rightarrow> formatter \<Rightarrow> error option \<times> formatter" where
  "run e [] fm = (None, fm)"
| "run e (v # vs) fm =
     (case parseEnvelope e v fm of
        (Some err, fm') \<Rightarrow> (Some err, fm')
      | (None, fm') \<Rightarrow> run e vs fm')"

section \<open>Notions for the properties\<close>

subsection \<open>Reading the output\<close>

text \<open>
  The indentations of the chunks written for one theme item, in the order written. A
  head writes its keyword once, so the feature heads of an output are its
  \<open>FeatureKeyword\<close> chunks and the rule heads its \<open>RuleKeyword\<close> chunks.
\<close>

fun indentsOf :: "themeItem \<Rightarrow> chunk list \<Rightarrow> nat list" where
  "indentsOf item [] = []"
| "indentsOf item (Styled i item' t # cs) =
     (if item' = item then i # indentsOf item cs else indentsOf item cs)"
| "indentsOf item (Raw s # cs) = indentsOf item cs"

definition itemCount :: "themeItem \<Rightarrow> chunk list \<Rightarrow> nat" where
  "itemCount item cs = length (indentsOf item cs)"

text \<open>\<open>Status[status].toLowerCase()\<close>, member by member.\<close>

fun lowerName :: "status \<Rightarrow> string" where
  "lowerName AMBIGUOUS = ''ambiguous''"
| "lowerName FAILED = ''failed''"
| "lowerName PASSED = ''passed''"
| "lowerName PENDING = ''pending''"
| "lowerName SKIPPED = ''skipped''"
| "lowerName UNDEFINED = ''undefined''"
| "lowerName UNKNOWN = ''unknown''"

subsection \<open>The steps of \<open>onTestCaseStarted\<close>\<close>

text \<open>The attempt that the \<open>testCaseStarted\<close> field of an envelope resolves to.\<close>

definition startedAttempt :: "env \<Rightarrow> envelope \<Rightarrow> testCaseAttempt option" where
  "startedAttempt e v =
     (case envelope_testCaseStarted v of
        None \<Rightarrow> None
      | Some ev \<Rightarrow> getTestCaseAttempt e (strOr (testCaseStarted_id ev) ''''))"

text \<open>
  The rule that the table of the document has for \<open>pickle.astNodeIds[0]\<close>: what
  \<open>gherkinExampleRuleMap[pickle.astNodeIds[0]]\<close> finds when the document has a
  feature.
\<close>

definition attemptRule :: "env \<Rightarrow> testCaseAttempt \<Rightarrow> rule option" where
  "attemptRule e att =
     (case pickle_astNodeIds (attempt_pickle att) of
        None \<Rightarrow> None
      | Some ids \<Rightarrow>
          lookup (getGherkinExampleRuleMap e (attempt_gherkinDocument att)) (index0 ids))"

text \<open>The test of the first \<open>if\<close> of \<open>onTestCaseStarted\<close>.\<close>

definition documentChanged :: "formatter \<Rightarrow> gherkinDocument \<Rightarrow> bool" where
  "documentChanged fm doc = (uri fm \<noteq> doc_uri doc \<and> doc_feature doc \<noteq> None)"

text \<open>The fields as the first \<open>if\<close> sets them, before the feature head is rendered.\<close>

definition resetFor :: "gherkinDocument \<Rightarrow> formatter \<Rightarrow> formatter" where
  "resetFor doc fm =
     fm\<lparr>indentOffset := 0, uri := Some (strOr (doc_uri doc) ''''), lastRuleId := None\<rparr>"

text \<open>The formatter after the first \<open>if\<close>, and after the second.\<close>

definition afterDocument :: "env \<Rightarrow> gherkinDocument \<Rightarrow> formatter \<Rightarrow> formatter" where
  "afterDocument e doc fm =
     (case doc_feature doc of
        None \<Rightarrow> fm
      | Some f \<Rightarrow>
          if uri fm \<noteq> doc_uri doc
          then log (renderFeatureHead e (resetFor doc fm) f) (resetFor doc fm)
          else fm)"

definition afterRule :: "env \<Rightarrow> rule option \<Rightarrow> formatter \<Rightarrow> formatter" where
  "afterRule e ro fm =
     (case ro of
        None \<Rightarrow> fm
      | Some r \<Rightarrow>
          if Some (rule_id r) \<noteq> lastRuleId fm
          then (log (renderRule e (fm\<lparr>indentOffset := 0\<rparr>) r) (fm\<lparr>indentOffset := 0\<rparr>))
                 \<lparr>lastRuleId := Some (rule_id r), indentOffset := 2\<rparr>
          else fm)"

text \<open>
  Both, for the attempt that an envelope starts. For a document without a feature the
  handler raises before it has set or written anything.
\<close>

definition startedStep :: "env \<Rightarrow> envelope \<Rightarrow> formatter \<Rightarrow> formatter" where
  "startedStep e v fm =
     (case startedAttempt e v of
        None \<Rightarrow> fm
      | Some att \<Rightarrow>
          if doc_feature (attempt_gherkinDocument att) = None then fm
          else afterRule e (attemptRule e att)
                 (afterDocument e (attempt_gherkinDocument att) fm))"

text \<open>What \<open>parseEnvelope\<close> does after \<open>onTestCaseStarted\<close> has returned.\<close>

definition afterStarted :: "env \<Rightarrow> envelope \<Rightarrow> formatter \<Rightarrow> error option \<times> formatter" where
  "afterStarted e v fm1 =
     (case (case envelope_testStepStarted v of
              None \<Rightarrow> (None, fm1)
            | Some ev \<Rightarrow> onTestStepStarted e ev fm1) of
        (Some err, fm2) \<Rightarrow> (Some err, fm2)
      | (None, fm2) \<Rightarrow>
          (None,
           (case envelope_testCaseFinished v of
              None \<Rightarrow> (case envelope_testStepFinished v of
                          None \<Rightarrow> fm2
                        | Some ev \<Rightarrow> onTestStepFinished e ev fm2)
            | Some ev \<Rightarrow>
                onTestCaseFinished e ev
                  (case envelope_testStepFinished v of
                     None \<Rightarrow> fm2
                   | Some ev \<Rightarrow> onTestStepFinished e ev fm2))))"

subsection \<open>Resolving a runtime step\<close>

text \<open>
  The pickle step identifier of the runtime step that a \<open>testStepStarted\<close> names:
  none when the step is not among the steps of the test case, or has no identifier of
  a pickle step (\<open>testStep && testStep.pickleStepId\<close> is falsy).
\<close>

definition pickleStepIdOf :: "testCaseAttempt \<Rightarrow> testStepStarted \<Rightarrow> string option" where
  "pickleStepIdOf att ev =
     (case find (\<lambda>item. testStep_id item = testStepStarted_testStepId ev)
             (listOr (testCase_testSteps (attempt_testCase att))) of
        None \<Rightarrow> None
      | Some ts \<Rightarrow>
          (case testStep_pickleStepId ts of
             None \<Rightarrow> None
           | Some psid \<Rightarrow> if psid = [] then None else Some psid))"

text \<open>
  The source step that the runtime step of a \<open>testStepStarted\<close> resolves to, through
  the test case, the pickle step lookup and the step lookup of the document.
\<close>

definition sourceStep :: "env \<Rightarrow> testStepStarted \<Rightarrow> gherkinStep option" where
  "sourceStep e ev =
     (case getTestCaseAttempt e (strOr (testStepStarted_testCaseStartedId ev) '''') of
        None \<Rightarrow> None
      | Some att \<Rightarrow>
          (case find (\<lambda>item. testStep_id item = testStepStarted_testStepId ev)
                  (listOr (testCase_testSteps (attempt_testCase att))) of
             None \<Rightarrow> None
           | Some ts \<Rightarrow>
               (case testStep_pickleStepId ts of
                  None \<Rightarrow> None
                | Some psid \<Rightarrow>
                    (case getPickleStepMap e (attempt_pickle att) psid of
                       None \<Rightarrow> None
                     | Some ps \<Rightarrow>
                         (case gherkinLookup (getGherkinStepMap e)
                                 (attempt_gherkinDocument att) of
                            None \<Rightarrow> None
                          | Some gherkinStepMap \<Rightarrow>
                              lookup gherkinStepMap (index0 (pickleStep_astNodeIds ps)))))))"

subsection \<open>The error of an envelope\<close>

text \<open>
  The error an envelope raises, which does not depend on the formatter:
  \<open>onTestCaseStarted\<close> and \<open>onTestStepStarted\<close> alone can raise.
\<close>

definition startedError :: "env \<Rightarrow> testCaseStarted \<Rightarrow> error option" where
  "startedError e ev =
     (case getTestCaseAttempt e (strOr (testCaseStarted_id ev) '''') of
        None \<Rightarrow> Some UnknownAttempt
      | Some att \<Rightarrow>
          (case doc_feature (attempt_gherkinDocument att) of
             None \<Rightarrow> Some TypeError
           | Some f \<Rightarrow>
               (case pickle_astNodeIds (attempt_pickle att) of
                  None \<Rightarrow> Some (Error ''Pickle AST nodes missing'')
                | Some ids \<Rightarrow>
                    (case lookup (getGherkinScenarioMap e (attempt_gherkinDocument att))
                            (index0 ids) of
                       None \<Rightarrow> Some TypeError
                     | Some sc \<Rightarrow> None))))"

definition stepStartedError :: "env \<Rightarrow> testStepStarted \<Rightarrow> error option" where
  "stepStartedError e ev =
     (case getTestCaseAttempt e (strOr (testStepStarted_testCaseStartedId ev) '''') of
        None \<Rightarrow> Some UnknownAttempt
      | Some att \<Rightarrow>
          (case doc_feature (attempt_gherkinDocument att) of
             None \<Rightarrow> Some TypeError
           | Some f \<Rightarrow>
               (case pickleStepIdOf att ev of
                  None \<Rightarrow> None
                | Some psid \<Rightarrow>
                    (case getPickleStepMap e (attempt_pickle att) psid of
                       None \<Rightarrow> Some TypeError
                     | Some ps \<Rightarrow>
                         (case lookup (getGherkinStepMap e (attempt_gherkinDocument att))
                                 (index0 (pickleStep_astNodeIds ps)) of
                            None \<Rightarrow> Some TypeError
                          | Some gs \<Rightarrow> None)))))"

definition envelopeError :: "env \<Rightarrow> envelope \<Rightarrow> error option" where
  "envelopeError e v =
     (case (case envelope_testCaseStarted v of
              None \<Rightarrow> None
            | Some ev \<Rightarrow> startedError e ev) of
        Some err \<Rightarrow> Some err
      | None \<Rightarrow>
          (case envelope_testStepStarted v of
             None \<Rightarrow> None
           | Some ev \<Rightarrow> stepStartedError e ev))"

subsection \<open>The tracked part of the formatter\<close>

text \<open>
  The part of the formatter that the heads and the indentation depend on: the three
  fields, and the indentations of the feature heads, rule heads and feature
  descriptions written so far.
\<close>

type_synonym tracker =
  "string option \<times> string option \<times> nat \<times> nat list \<times> nat list \<times> nat list"

definition tracked :: "formatter \<Rightarrow> tracker" where
  "tracked fm =
     (uri fm, lastRuleId fm, indentOffset fm, indentsOf FeatureKeyword (out fm),
      indentsOf RuleKeyword (out fm), indentsOf FeatureDescription (out fm))"

text \<open>
  The same part, computed on its own: what an envelope does to it, and what a run
  does to it. Of the four handlers \<open>onTestCaseStarted\<close> alone changes it.
\<close>

definition descriptionIndent :: "gherkinDocument \<Rightarrow> nat list" where
  "descriptionIndent doc =
     (case doc_feature doc of
        None \<Rightarrow> []
      | Some f \<Rightarrow>
          (case feature_description f of
             None \<Rightarrow> []
           | Some d \<Rightarrow> if d = [] then [] else [2]))"

definition trackedStep :: "env \<Rightarrow> envelope \<Rightarrow> tracker \<Rightarrow> tracker" where
  "trackedStep e v t =
     (case startedAttempt e v of
        None \<Rightarrow> t
      | Some att \<Rightarrow>
          if doc_feature (attempt_gherkinDocument att) = None then t
          else
            (case t of
               (u, l, i, fk, rk, fd) \<Rightarrow>
                 let doc = attempt_gherkinDocument att;
                     changed = (u \<noteq> doc_uri doc);
                     u1 = (if changed then Some (strOr (doc_uri doc) '''') else u);
                     l1 = (if changed then None else l);
                     i1 = (if changed then 0 else i);
                     fk1 = (if changed then fk @ [0] else fk);
                     fd1 = (if changed then fd @ descriptionIndent doc else fd)
                 in case attemptRule e att of
                      None \<Rightarrow> (u1, l1, i1, fk1, rk, fd1)
                    | Some r \<Rightarrow>
                        if Some (rule_id r) \<noteq> l1
                        then (u1, Some (rule_id r), 2, fk1, rk @ [2], fd1)
                        else (u1, l1, i1, fk1, rk, fd1)))"

fun trackedRun :: "env \<Rightarrow> envelope list \<Rightarrow> tracker \<Rightarrow> tracker" where
  "trackedRun e [] t = t"
| "trackedRun e (v # vs) t =
     (if envelopeError e v = None then trackedRun e vs (trackedStep e v t)
      else trackedStep e v t)"


subsection \<open>Runs of envelopes\<close>

text \<open>Every attempt started in the envelopes resolves to the document \<open>d\<close>.\<close>

definition sameDocument :: "env \<Rightarrow> gherkinDocument \<Rightarrow> envelope list \<Rightarrow> bool" where
  "sameDocument e d vs =
     list_all (\<lambda>v. case startedAttempt e v of
                      None \<Rightarrow> True
                    | Some att \<Rightarrow> attempt_gherkinDocument att = d) vs"

text \<open>Every attempt started in the envelopes that has a rule has the rule \<open>rid\<close>.\<close>

definition sameRule :: "env \<Rightarrow> string \<Rightarrow> envelope list \<Rightarrow> bool" where
  "sameRule e rid vs =
     list_all (\<lambda>v. case startedAttempt e v of
                      None \<Rightarrow> True
                    | Some att \<Rightarrow>
                        (case attemptRule e att of
                           None \<Rightarrow> True
                         | Some r \<Rightarrow> rule_id r = rid)) vs"

text \<open>
  The feature heads written so far, and one more while the document \<open>u\<close> is not the
  current one; the same for the rule \<open>rid\<close> of the document \<open>d\<close>. Neither grows
  during a run of envelopes of one document and one rule.
\<close>

definition featureDue :: "string \<Rightarrow> formatter \<Rightarrow> nat" where
  "featureDue u fm =
     itemCount FeatureKeyword (out fm) + (if uri fm = Some u then 0 else 1)"

definition ruleDue :: "gherkinDocument \<Rightarrow> string \<Rightarrow> string \<Rightarrow> formatter \<Rightarrow> nat" where
  "ruleDue d u rid fm =
     itemCount RuleKeyword (out fm)
     + (if lastRuleId fm = Some rid \<and> (uri fm = Some u \<or> doc_feature d = None) then 0 else 1)"

text \<open>
  The distinct documents that the started attempts of a stream resolve to, and the
  distinct pairs of a document and the identifier of a rule.
\<close>

definition documentsOf :: "env \<Rightarrow> envelope list \<Rightarrow> gherkinDocument list" where
  "documentsOf e vs =
     remdups (map attempt_gherkinDocument (List.map_filter (startedAttempt e) vs))"

definition rulesOf :: "env \<Rightarrow> envelope list \<Rightarrow> (gherkinDocument \<times> string) list" where
  "rulesOf e vs =
     remdups
       (List.map_filter
          (\<lambda>v. case startedAttempt e v of
                 None \<Rightarrow> None
               | Some att \<Rightarrow>
                   (case attemptRule e att of
                      None \<Rightarrow> None
                    | Some r \<Rightarrow> Some (attempt_gherkinDocument att, rule_id r)))
          vs)"

subsection \<open>Envelopes with one field\<close>

definition attemptStarted :: "string \<Rightarrow> envelope" where
  "attemptStarted a =
     \<lparr>envelope_testCaseStarted = Some \<lparr>testCaseStarted_id = Some a\<rparr>,
      envelope_testStepStarted = None,
      envelope_testStepFinished = None,
      envelope_testCaseFinished = None\<rparr>"

definition stepStarted :: "string \<Rightarrow> string \<Rightarrow> envelope" where
  "stepStarted a s =
     \<lparr>envelope_testCaseStarted = None,
      envelope_testStepStarted =
        Some \<lparr>testStepStarted_testCaseStartedId = Some a, testStepStarted_testStepId = Some s\<rparr>,
      envelope_testStepFinished = None,
      envelope_testCaseFinished = None\<rparr>"

definition stepFinished :: "string \<Rightarrow> string \<Rightarrow> testStepResult \<Rightarrow> envelope" where
  "stepFinished a s r =
     \<lparr>envelope_testCaseStarted = None,
      envelope_testStepStarted = None,
      envelope_testStepFinished =
        Some \<lparr>testStepFinished_testCaseStartedId = Some a,
              testStepFinished_testStepId = Some s,
              testStepFinished_testStepResult = Some r\<rparr>,
      envelope_testCaseFinished = None\<rparr>"

definition attemptFinished :: "string \<Rightarrow> envelope" where
  "attemptFinished a =
     \<lparr>envelope_testCaseStarted = None,
      envelope_testStepStarted = None,
      envelope_testStepFinished = None,
      envelope_testCaseFinished = Some \<lparr>testCaseFinished_testCaseStartedId = Some a\<rparr>\<rparr>"

definition passedResult :: testStepResult where
  "passedResult = \<lparr>result_message = None, result_status = Some PASSED\<rparr>"

subsection \<open>An example run\<close>

text \<open>
  Two feature files and a file without a feature. \<open>x.feature\<close> has the scenario
  \<open>s1\<close> outside any rule, the scenario outline \<open>s2\<close> with the example rows
  \<open>e1\<close> and \<open>e2\<close> under the rule \<open>r1\<close>, and the scenario \<open>s3\<close> under the
  rule \<open>r2\<close>; \<open>y.feature\<close> has the scenario \<open>t1\<close>. The attempts \<open>B\<close> and
  \<open>B2\<close> run the two expansions of the outline; \<open>M\<close>, \<open>N\<close> and \<open>O\<close> have a
  pickle without identifiers, with none, and with one that the document does not have.
  The theme is the plain one (indentation and no colours).
\<close>

definition featureF :: feature where
  "featureF =
     \<lparr>feature_tags = None, feature_keyword = Some ''Feature'', feature_name = Some ''F'',
      feature_location = Some \<lparr>location_line = Some 1\<rparr>, feature_description = None\<rparr>"

definition featureG :: feature where
  "featureG =
     \<lparr>feature_tags = None, feature_keyword = Some ''Feature'', feature_name = Some ''G'',
      feature_location = Some \<lparr>location_line = Some 1\<rparr>,
      feature_description = Some ''about G''\<rparr>"

definition docX :: gherkinDocument where
  "docX = \<lparr>doc_uri = Some ''x.feature'', doc_feature = Some featureF\<rparr>"

definition docY :: gherkinDocument where
  "docY = \<lparr>doc_uri = Some ''y.feature'', doc_feature = Some featureG\<rparr>"

definition docZ :: gherkinDocument where
  "docZ = \<lparr>doc_uri = Some ''z.feature'', doc_feature = None\<rparr>"

definition ruleR1 :: rule where
  "ruleR1 = \<lparr>rule_id = ''r1'', rule_keyword = ''Rule'', rule_name = Some ''R1''\<rparr>"

definition ruleR2 :: rule where
  "ruleR2 = \<lparr>rule_id = ''r2'', rule_keyword = ''Rule'', rule_name = Some ''R2''\<rparr>"

definition scenarioAt :: "int \<Rightarrow> scenario" where
  "scenarioAt n =
     \<lparr>scenario_keyword = Some ''Scenario'',
      scenario_location = Some \<lparr>location_line = Some n\<rparr>\<rparr>"

definition pickleOf :: "string list option \<Rightarrow> string \<Rightarrow> pickle" where
  "pickleOf ids n = \<lparr>pickle_astNodeIds = ids, pickle_tags = None, pickle_name = Some n\<rparr>"

definition exampleTestCase :: testCase where
  "exampleTestCase =
     \<lparr>testCase_testSteps =
        Some [\<lparr>testStep_id = Some ''hook1'', testStep_pickleStepId = None\<rparr>,
              \<lparr>testStep_id = Some ''step1'', testStep_pickleStepId = Some ''ps1''\<rparr>,
              \<lparr>testStep_id = Some ''step9'', testStep_pickleStepId = Some ''ps9''\<rparr>]\<rparr>"

definition attemptOf :: "gherkinDocument \<Rightarrow> pickle \<Rightarrow> testCaseAttempt" where
  "attemptOf doc p =
     \<lparr>attempt_gherkinDocument = doc, attempt_pickle = p, attempt_testCase = exampleTestCase\<rparr>"

definition exampleEnv :: env where
  "exampleEnv =
     \<lparr>getTestCaseAttempt =
        map_of
          [(''A'', attemptOf docX (pickleOf (Some [''s1'']) ''S1'')),
           (''B'', attemptOf docX (pickleOf (Some [''s2'', ''e1'']) ''S2'')),
           (''B2'', attemptOf docX (pickleOf (Some [''s2'', ''e2'']) ''S2'')),
           (''C'', attemptOf docX (pickleOf (Some [''s3'']) ''S3'')),
           (''D'', attemptOf docY (pickleOf (Some [''t1'']) ''T1'')),
           (''E'', attemptOf docZ (pickleOf (Some [''u1'']) ''U1'')),
           (''M'', attemptOf docX (pickleOf None ''M'')),
           (''N'', attemptOf docX (pickleOf (Some []) ''N'')),
           (''O'', attemptOf docX (pickleOf (Some [''s9'']) ''O''))],
      getGherkinExampleRuleMap =
        (\<lambda>doc. if doc_uri doc = Some ''x.feature''
               then map_of [(''s2'', ruleR1), (''s3'', ruleR2)] else Map.empty),
      getGherkinScenarioMap =
        (\<lambda>doc. if doc_uri doc = Some ''x.feature''
               then map_of [(''s1'', scenarioAt 3), (''s2'', scenarioAt 7), (''s3'', scenarioAt 11)]
               else if doc_uri doc = Some ''y.feature'' then map_of [(''t1'', scenarioAt 5)]
               else map_of [(''u1'', scenarioAt 2)]),
      getGherkinStepMap =
        (\<lambda>doc. map_of
                 [(''st1'', \<lparr>step_keyword = ''Given'', step_docString = None,
                             step_dataTable = None\<rparr>)]),
      getPickleStepMap =
        (\<lambda>p. map_of [(''ps1'', \<lparr>pickleStep_astNodeIds = [''st1''], pickleStep_text = ''a''\<rparr>)]),
      formatLocation = (\<lambda>u line. u),
      indentStyleText = (\<lambda>indent item text. replicate indent (CHR '' '') @ concat text),
      colorForStatus = (\<lambda>st s. s),
      tableToString = (\<lambda>rows. concat (map concat rows)),
      dedent = (\<lambda>s. s),
      trim = (\<lambda>s. s),
      cross = ''x'',
      tick = ''v'',
      EOL = [CHR 0x0A]\<rparr>"

section \<open>Lemmas\<close>

subsection \<open>What each routine writes\<close>

lemma indentsOf_append [simp]:
  "indentsOf item (xs @ ys) = indentsOf item xs @ indentsOf item ys"
  by (induction item xs rule: indentsOf.induct) auto

lemma log_fields [simp]:
  "uri (log cs fm) = uri fm"
  "lastRuleId (log cs fm) = lastRuleId fm"
  "indentOffset (log cs fm) = indentOffset fm"
  "out (log cs fm) = out fm @ cs"
  by (simp_all add: log_def)

lemma resetFor_fields [simp]:
  "uri (resetFor doc fm) = Some (strOr (doc_uri doc) '''')"
  "lastRuleId (resetFor doc fm) = None"
  "indentOffset (resetFor doc fm) = 0"
  "out (resetFor doc fm) = out fm"
  by (simp_all add: resetFor_def)

lemma strOr_Some [simp]: "strOr (Some u) '''' = u"
  by (simp add: strOr_def)

lemma toLowerCase_statusName: "toLowerCase (statusName st) = lowerName st"
  by (cases st; simp; code_simp)

lemma indentsOf_tagTail:
  "item \<noteq> Tag \<Longrightarrow>
     indentsOf item (concat (map (\<lambda>t. [Raw '' '', logItem fm Tag [t]]) rest)) = []"
  by (induction rest) (auto simp: logItem_def styleItem_def)

lemma indentsOf_renderTags [simp]:
  "item \<noteq> Tag \<Longrightarrow> indentsOf item (renderTags e fm i tags) = []"
  by (simp add: renderTags_def Let_def styleItem_def newline_def indentsOf_tagTail
           split: list.splits)

lemma indentsOf_renderLocation [simp]:
  "item \<noteq> Location \<Longrightarrow> indentsOf item (renderLocation e fm l) = []"
  by (simp add: renderLocation_def logItem_def styleItem_def)

lemma indentsOf_renderFeatureHead_FeatureKeyword [simp]:
  "indentsOf FeatureKeyword (renderFeatureHead e fm f) = [0]"
  by (simp add: renderFeatureHead_def logItem_def styleItem_def newline_def
           split: option.splits)

lemma indentsOf_renderFeatureHead_other [simp]:
  "item \<notin> {Tag, FeatureKeyword, FeatureName, Location, FeatureDescription} \<Longrightarrow>
     indentsOf item (renderFeatureHead e fm f) = []"
  by (auto simp add: renderFeatureHead_def logItem_def styleItem_def newline_def
           split: option.splits)


lemma indentsOf_renderRule_RuleKeyword [simp]:
  "indentsOf RuleKeyword (renderRule e fm r) =
     [if indentOffset fm > 0 then 2 + indentOffset fm else 2]"
  by (simp add: renderRule_def logItem_def styleItem_def newline_def)

lemma indentsOf_renderRule_other [simp]:
  "item \<notin> {RuleKeyword, RuleName} \<Longrightarrow> indentsOf item (renderRule e fm r) = []"
  by (auto simp add: renderRule_def logItem_def styleItem_def newline_def)

lemma indentsOf_renderScenarioHead [simp]:
  "item \<notin> {Tag, ScenarioKeyword, ScenarioName, Location} \<Longrightarrow>
     indentsOf item (snd (renderScenarioHead e fm doc p)) = []"
  by (auto simp add: renderScenarioHead_def gherkinLookup_def Let_def logItem_def
        styleItem_def newline_def split: option.splits)

subsection \<open>The steps of \<open>onTestCaseStarted\<close>\<close>

lemma onTestCaseStarted_steps:
  assumes "getTestCaseAttempt e (strOr (testCaseStarted_id ev) '''') = Some att"
  shows "onTestCaseStarted e ev fm =
           (let doc = attempt_gherkinDocument att;
                fm1 = afterDocument e doc fm;
                fm2 = afterRule e (attemptRule e att) fm1
            in if doc_feature doc = None then (Some TypeError, fm)
               else if pickle_astNodeIds (attempt_pickle att) = None
               then (Some (Error ''Pickle AST nodes missing''), fm1)
               else (fst (renderScenarioHead e fm2 doc (attempt_pickle att)),
                     log (snd (renderScenarioHead e fm2 doc (attempt_pickle att))) fm2))"
  using assms
  by (simp add: onTestCaseStarted_def gherkinLookup_def afterDocument_def afterRule_def
        attemptRule_def resetFor_def Let_def case_prod_beta split: option.splits)

lemma afterDocument_fields:
  "uri (afterDocument e doc fm) =
     (if documentChanged fm doc then Some (strOr (doc_uri doc) '''') else uri fm)"
  "lastRuleId (afterDocument e doc fm) =
     (if documentChanged fm doc then None else lastRuleId fm)"
  "indentOffset (afterDocument e doc fm) =
     (if documentChanged fm doc then 0 else indentOffset fm)"
  by (simp_all add: afterDocument_def documentChanged_def split: option.splits)

lemma afterDocument_out:
  "out (afterDocument e doc fm) =
     out fm @ (case doc_feature doc of
                 None \<Rightarrow> []
               | Some f \<Rightarrow>
                   if uri fm \<noteq> doc_uri doc
                   then renderFeatureHead e (resetFor doc fm) f else [])"
  by (simp add: afterDocument_def split: option.splits)

lemma afterRule_fields:
  "uri (afterRule e ro fm) = uri fm"
  "lastRuleId (afterRule e ro fm) =
     (case ro of None \<Rightarrow> lastRuleId fm | Some r \<Rightarrow> Some (rule_id r))"
  "indentOffset (afterRule e ro fm) =
     (case ro of
        None \<Rightarrow> indentOffset fm
      | Some r \<Rightarrow> if Some (rule_id r) \<noteq> lastRuleId fm then 2 else indentOffset fm)"
  by (auto simp add: afterRule_def split: option.splits)

lemma afterRule_out:
  "out (afterRule e ro fm) =
     out fm @ (case ro of
                 None \<Rightarrow> []
               | Some r \<Rightarrow>
                   if Some (rule_id r) \<noteq> lastRuleId fm
                   then renderRule e (fm\<lparr>indentOffset := 0\<rparr>) r else [])"
  by (simp add: afterRule_def split: option.splits)

lemma tracked_log:
  "indentsOf FeatureKeyword cs = [] \<Longrightarrow> indentsOf RuleKeyword cs = [] \<Longrightarrow>
   indentsOf FeatureDescription cs = [] \<Longrightarrow> tracked (log cs fm) = tracked fm"
  by (simp add: tracked_def)

lemma tracked_onTestStepStarted: "tracked (snd (onTestStepStarted e ev fm)) = tracked fm"
  by (simp add: onTestStepStarted_def gherkinLookup_def Let_def tracked_def logItem_def
        styleItem_def newline_def split: option.splits)

lemma tracked_onTestStepFinished: "tracked (onTestStepFinished e ev fm) = tracked fm"
  by (simp add: onTestStepFinished_def Let_def tracked_def logItem_def styleItem_def newline_def
           split: option.splits)

lemma tracked_onTestCaseFinished: "tracked (onTestCaseFinished e ev fm) = tracked fm"
  by (simp add: onTestCaseFinished_def tracked_def newline_def)

lemma tracked_onTestCaseStarted:
  assumes "getTestCaseAttempt e (strOr (testCaseStarted_id ev) '''') = Some att"
  shows "tracked (snd (onTestCaseStarted e ev fm)) =
           tracked (if doc_feature (attempt_gherkinDocument att) = None then fm
                    else afterRule e (attemptRule e att)
                           (afterDocument e (attempt_gherkinDocument att) fm))"
proof (cases "doc_feature (attempt_gherkinDocument att)")
  case None
  then show ?thesis by (simp add: onTestCaseStarted_steps [OF assms])
next
  case feature: (Some f)
  show ?thesis
  proof (cases "pickle_astNodeIds (attempt_pickle att)")
    case None
    then have "attemptRule e att = None" by (simp add: attemptRule_def)
    with None feature show ?thesis
      by (simp add: onTestCaseStarted_steps [OF assms] afterRule_def)
  next
    case (Some ids)
    with feature show ?thesis
      by (simp add: onTestCaseStarted_steps [OF assms] Let_def tracked_log)
  qed
qed

subsection \<open>One envelope\<close>

lemma parseEnvelope_afterStarted:
  "parseEnvelope e v fm =
     (case (case envelope_testCaseStarted v of
              None \<Rightarrow> (None, fm)
            | Some ev \<Rightarrow> onTestCaseStarted e ev fm) of
        (Some err, fm1) \<Rightarrow> (Some err, fm1)
      | (None, fm1) \<Rightarrow> afterStarted e v fm1)"
  by (simp add: parseEnvelope_def afterStarted_def Let_def split: option.splits prod.splits)

lemma tracked_afterStarted: "tracked (snd (afterStarted e v fm1)) = tracked fm1"
proof -
  obtain err2 fm2 where r2:
    "(case envelope_testStepStarted v of None \<Rightarrow> (None, fm1)
      | Some ev \<Rightarrow> onTestStepStarted e ev fm1) = (err2, fm2)"
    by (cases "(case envelope_testStepStarted v of None \<Rightarrow> (None, fm1)
      | Some ev \<Rightarrow> onTestStepStarted e ev fm1)")
  have fm2: "tracked fm2 = tracked fm1"
  proof (cases "envelope_testStepStarted v")
    case None
    with r2 show ?thesis by simp
  next
    case (Some ev)
    with r2 have "snd (onTestStepStarted e ev fm1) = fm2" by simp
    then show ?thesis using tracked_onTestStepStarted [of e ev fm1] by simp
  qed
  show ?thesis
  proof (cases err2)
    case None
    with r2 fm2 show ?thesis
      by (simp add: afterStarted_def tracked_onTestStepFinished tracked_onTestCaseFinished
            split: option.splits)
  next
    case (Some x)
    with r2 fm2 show ?thesis by (simp add: afterStarted_def)
  qed
qed

lemma tracked_parseEnvelope:
  "tracked (snd (parseEnvelope e v fm)) = tracked (startedStep e v fm)"
proof -
  obtain err fm1 where r:
    "(case envelope_testCaseStarted v of None \<Rightarrow> (None, fm)
      | Some ev \<Rightarrow> onTestCaseStarted e ev fm) = (err, fm1)"
    by (cases "(case envelope_testCaseStarted v of None \<Rightarrow> (None, fm)
      | Some ev \<Rightarrow> onTestCaseStarted e ev fm)")
  have fm1: "tracked fm1 = tracked (startedStep e v fm)"
  proof (cases "envelope_testCaseStarted v")
    case None
    with r show ?thesis by (simp add: startedStep_def startedAttempt_def)
  next
    case (Some ev)
    with r have s: "snd (onTestCaseStarted e ev fm) = fm1" by simp
    show ?thesis
    proof (cases "getTestCaseAttempt e (strOr (testCaseStarted_id ev) '''')")
      case None
      with Some s show ?thesis
        by (simp add: startedStep_def startedAttempt_def onTestCaseStarted_def)
    next
      case att: (Some att)
      from tracked_onTestCaseStarted [OF att, of fm] s Some att show ?thesis
        by (simp add: startedStep_def startedAttempt_def)
    qed
  qed
  show ?thesis
  proof (cases err)
    case None
    with r fm1 show ?thesis
      by (simp add: parseEnvelope_afterStarted tracked_afterStarted)
  next
    case (Some x)
    with r fm1 show ?thesis by (simp add: parseEnvelope_afterStarted)
  qed
qed

subsection \<open>The indentation offset over a run\<close>








subsection \<open>Heads over a run of one document\<close>

lemma featureDue_startedStep:
  assumes "doc_uri d = Some u" and "sameDocument e d [v]"
  shows "featureDue u (startedStep e v fm) \<le> featureDue u fm"
    and "itemCount FeatureKeyword (out fm)
           \<le> itemCount FeatureKeyword (out (startedStep e v fm))"
proof -
  from assms show "featureDue u (startedStep e v fm) \<le> featureDue u fm"
    by (auto simp add: featureDue_def startedStep_def sameDocument_def itemCount_def
          afterRule_fields afterRule_out afterDocument_fields afterDocument_out
          documentChanged_def strOr_def split: option.splits)
  show "itemCount FeatureKeyword (out fm)
          \<le> itemCount FeatureKeyword (out (startedStep e v fm))"
    by (simp add: startedStep_def itemCount_def afterRule_out afterDocument_out
          split: option.splits)
qed

lemma ruleDue_startedStep:
  assumes "doc_uri d = Some u" and "sameDocument e d [v]" and "sameRule e rid [v]"
  shows "ruleDue d u rid (startedStep e v fm) \<le> ruleDue d u rid fm"
  using assms
  by (auto simp add: ruleDue_def startedStep_def sameDocument_def sameRule_def itemCount_def
        afterRule_fields afterRule_out afterDocument_fields afterDocument_out
        documentChanged_def strOr_def split: option.splits)

lemma due_tracked:
  "tracked fm = tracked fm' \<Longrightarrow> featureDue u fm = featureDue u fm'"
  "tracked fm = tracked fm' \<Longrightarrow> ruleDue d u rid fm = ruleDue d u rid fm'"
  "tracked fm = tracked fm' \<Longrightarrow>
     itemCount FeatureKeyword (out fm) = itemCount FeatureKeyword (out fm')"
  by (simp_all add: tracked_def featureDue_def ruleDue_def itemCount_def)

lemma featureDue_run:
  assumes "doc_uri d = Some u" and "sameDocument e d vs"
  shows "featureDue u (snd (run e vs fm)) \<le> featureDue u fm
         \<and> itemCount FeatureKeyword (out fm)
             \<le> itemCount FeatureKeyword (out (snd (run e vs fm)))"
  using assms(2)
proof (induction vs arbitrary: fm)
  case Nil
  then show ?case by simp
next
  case (Cons v vs)
  obtain err fm' where r: "parseEnvelope e v fm = (err, fm')"
    by (cases "parseEnvelope e v fm")
  from Cons.prems have v: "sameDocument e d [v]" and vs: "sameDocument e d vs"
    by (simp_all add: sameDocument_def)
  have t: "tracked fm' = tracked (startedStep e v fm)"
    using tracked_parseEnvelope [of e v fm] r by simp
  have s: "featureDue u fm' \<le> featureDue u fm"
    "itemCount FeatureKeyword (out fm) \<le> itemCount FeatureKeyword (out fm')"
    using featureDue_startedStep [OF assms(1) v, of fm] due_tracked(1,3) [OF t] by simp_all
  show ?case
  proof (cases err)
    case None
    with r s Cons.IH [OF vs, of fm'] show ?thesis by simp
  next
    case (Some x)
    with r s show ?thesis by simp
  qed
qed

lemma ruleDue_run:
  assumes "doc_uri d = Some u" and "sameDocument e d vs" and "sameRule e rid vs"
  shows "ruleDue d u rid (snd (run e vs fm)) \<le> ruleDue d u rid fm"
  using assms(2,3)
proof (induction vs arbitrary: fm)
  case Nil
  then show ?case by simp
next
  case (Cons v vs)
  obtain err fm' where r: "parseEnvelope e v fm = (err, fm')"
    by (cases "parseEnvelope e v fm")
  from Cons.prems have v: "sameDocument e d [v]" "sameRule e rid [v]"
    and vs: "sameDocument e d vs" "sameRule e rid vs"
    by (simp_all add: sameDocument_def sameRule_def)
  have t: "tracked fm' = tracked (startedStep e v fm)"
    using tracked_parseEnvelope [of e v fm] r by simp
  have s: "ruleDue d u rid fm' \<le> ruleDue d u rid fm"
    using ruleDue_startedStep [OF assms(1) v, of fm] due_tracked(2) [OF t] by simp
  show ?case
  proof (cases err)
    case None
    with r s Cons.IH [OF vs, of fm'] show ?thesis by simp
  next
    case (Some x)
    with r s show ?thesis by simp
  qed
qed

subsection \<open>Errors, and the tracked part on its own\<close>

lemma fst_renderScenarioHead:
  "fst (renderScenarioHead e fm doc p) =
     (case doc_feature doc of
        None \<Rightarrow> Some TypeError
      | Some f \<Rightarrow>
          (case pickle_astNodeIds p of
             None \<Rightarrow> Some (Error ''Pickle AST nodes missing'')
           | Some ids \<Rightarrow>
               (case lookup (getGherkinScenarioMap e doc) (index0 ids) of
                  None \<Rightarrow> Some TypeError
                | Some sc \<Rightarrow> None)))"
  by (simp add: renderScenarioHead_def gherkinLookup_def Let_def split: option.splits)

lemma fst_onTestCaseStarted: "fst (onTestCaseStarted e ev fm) = startedError e ev"
proof (cases "getTestCaseAttempt e (strOr (testCaseStarted_id ev) '''')")
  case None
  then show ?thesis by (simp add: onTestCaseStarted_def startedError_def)
next
  case (Some att)
  then show ?thesis
    by (simp add: onTestCaseStarted_steps [OF Some] startedError_def Let_def
          fst_renderScenarioHead split: option.splits)
qed

lemma fst_onTestStepStarted: "fst (onTestStepStarted e ev fm) = stepStartedError e ev"
  by (simp add: onTestStepStarted_def gherkinLookup_def stepStartedError_def
        pickleStepIdOf_def Let_def split: option.splits)

lemma fst_afterStarted:
  "fst (afterStarted e v fm1) =
     (case envelope_testStepStarted v of None \<Rightarrow> None | Some ev \<Rightarrow> stepStartedError e ev)"
proof (cases "envelope_testStepStarted v")
  case None
  then show ?thesis by (simp add: afterStarted_def)
next
  case (Some ev)
  obtain err2 fm2 where r2: "onTestStepStarted e ev fm1 = (err2, fm2)"
    by (cases "onTestStepStarted e ev fm1")
  with fst_onTestStepStarted [of e ev fm1] have "stepStartedError e ev = err2" by simp
  with Some r2 show ?thesis by (cases err2) (simp_all add: afterStarted_def)
qed

lemma fst_parseEnvelope: "fst (parseEnvelope e v fm) = envelopeError e v"
proof (cases "envelope_testCaseStarted v")
  case None
  then show ?thesis
    by (simp add: parseEnvelope_afterStarted fst_afterStarted envelopeError_def)
next
  case (Some ev)
  obtain err fm1 where r: "onTestCaseStarted e ev fm = (err, fm1)"
    by (cases "onTestCaseStarted e ev fm")
  with fst_onTestCaseStarted [of e ev fm] have "startedError e ev = err" by simp
  with Some r show ?thesis
    by (cases err) (simp_all add: parseEnvelope_afterStarted fst_afterStarted envelopeError_def)
qed

lemma run_Cons:
  "run e (v # vs) fm =
     (if envelopeError e v = None then run e vs (snd (parseEnvelope e v fm))
      else parseEnvelope e v fm)"
proof -
  obtain err fm' where r: "parseEnvelope e v fm = (err, fm')"
    by (cases "parseEnvelope e v fm")
  with fst_parseEnvelope [of e v fm] have "envelopeError e v = err" by simp
  with r show ?thesis by (cases err) simp_all
qed

lemma indentsOf_renderFeatureHead_description:
  "indentOffset fm = 0 \<Longrightarrow>
     indentsOf FeatureDescription (renderFeatureHead e fm f) =
       (case feature_description f of
          None \<Rightarrow> []
        | Some d \<Rightarrow> if d = [] then [] else [2])"
  by (simp add: renderFeatureHead_def logItem_def styleItem_def newline_def
           split: option.splits)

lemma tracked_startedStep: "tracked (startedStep e v fm) = trackedStep e v (tracked fm)"
  by (auto simp add: startedStep_def trackedStep_def tracked_def Let_def descriptionIndent_def
        afterRule_fields afterRule_out afterDocument_fields afterDocument_out
        documentChanged_def indentsOf_renderFeatureHead_description
        split: option.splits)

lemma tracked_run: "tracked (snd (run e vs fm)) = trackedRun e vs (tracked fm)"
proof (induction vs arbitrary: fm)
  case Nil
  then show ?case by simp
next
  case (Cons v vs)
  have t: "tracked (snd (parseEnvelope e v fm)) = trackedStep e v (tracked fm)"
    by (simp add: tracked_parseEnvelope tracked_startedStep)
  show ?case
  proof (cases "envelopeError e v = None")
    case True
    with Cons.IH [of "snd (parseEnvelope e v fm)"] t show ?thesis
      by (simp add: run_Cons del: run.simps)
  next
    case False
    then obtain x where "envelopeError e v = Some x" by auto
    with t show ?thesis by (simp add: run_Cons del: run.simps)
  qed
qed

subsection \<open>Evaluating the example\<close>

lemmas example_defs =
  exampleEnv_def featureF_def featureG_def docX_def docY_def docZ_def ruleR1_def ruleR2_def
  scenarioAt_def pickleOf_def exampleTestCase_def attemptOf_def attemptStarted_def
  stepStarted_def stepFinished_def attemptFinished_def passedResult_def


lemmas tracker_defs =
  trackedStep_def envelopeError_def startedError_def stepStartedError_def startedAttempt_def
  attemptRule_def descriptionIndent_def strOr_def lookup_def index0_def Let_def

lemma tracked_init: "tracked init = (None, None, 0, [], [], [])"
  by (simp add: tracked_def init_def)

lemma tracked_parts:
  assumes "tracked fm = (u, l, i, fk, rk, fd)"
  shows "uri fm = u" and "lastRuleId fm = l" and "indentOffset fm = i"
    and "indentsOf FeatureKeyword (out fm) = fk" and "indentsOf RuleKeyword (out fm) = rk"
    and "indentsOf FeatureDescription (out fm) = fd"
    and "itemCount FeatureKeyword (out fm) = length fk"
    and "itemCount RuleKeyword (out fm) = length rk"
  using assms by (simp_all add: tracked_def itemCount_def)

lemma log_same: "(log cs fm = fm) = (cs = [])"
proof
  assume "log cs fm = fm"
  then have "out (log cs fm) = out fm" by simp
  then show "cs = []" by simp
next
  assume "cs = []"
  then show "log cs fm = fm" by (simp add: log_def)
qed


section \<open>The claims\<close>

text \<open>
  C1. As stated: for every stream, the feature head is rendered at most once for each
  document and the rule head at most once for each pair of a document and a rule
  identifier, also when attempts of several documents are interleaved. The formatter
  remembers one URI and one rule identifier only, so a document or a rule that comes
  back after another one gets its head again.

  What holds: over any run of consecutive envelopes whose started attempts all resolve
  to one document with a URI, whatever the formatter was before, at most one feature
  head is written, and none when that document is already the current one; when the
  rules these attempts resolve to all have one identifier, at most one rule head is
  written.
\<close>

theorem heads_once_per_run:
  assumes "doc_uri d = Some u" and "sameDocument e d vs"
  shows "itemCount FeatureKeyword (out (snd (run e vs fm)))
           \<le> itemCount FeatureKeyword (out fm) + 1
       \<and> (uri fm = Some u \<longrightarrow>
            itemCount FeatureKeyword (out (snd (run e vs fm)))
              = itemCount FeatureKeyword (out fm))
       \<and> (sameRule e rid vs \<longrightarrow>
            itemCount RuleKeyword (out (snd (run e vs fm)))
              \<le> itemCount RuleKeyword (out fm) + 1)"
proof -
  have f: "featureDue u (snd (run e vs fm)) \<le> featureDue u fm"
    "itemCount FeatureKeyword (out fm) \<le> itemCount FeatureKeyword (out (snd (run e vs fm)))"
    using featureDue_run [OF assms, of fm] by simp_all
  have r: "sameRule e rid vs \<Longrightarrow> ruleDue d u rid (snd (run e vs fm)) \<le> ruleDue d u rid fm"
    using ruleDue_run [OF assms] by simp
  from f r show ?thesis
    by (auto simp add: featureDue_def ruleDue_def split: if_splits)
qed

theorem heads_once_per_run_witness:
  "doc_uri docX = Some ''x.feature''
   \<and> sameDocument exampleEnv docX
        [attemptStarted ''B'', attemptFinished ''B'', attemptStarted ''B2'',
         attemptFinished ''B2'']
   \<and> sameRule exampleEnv ''r1''
        [attemptStarted ''B'', attemptFinished ''B'', attemptStarted ''B2'',
         attemptFinished ''B2'']
   \<and> itemCount FeatureKeyword
        (out (snd (run exampleEnv
           [attemptStarted ''B'', attemptFinished ''B'', attemptStarted ''B2'',
         attemptFinished ''B2'']
           init))) = 1
   \<and> itemCount RuleKeyword
        (out (snd (run exampleEnv
           [attemptStarted ''B'', attemptFinished ''B'', attemptStarted ''B2'',
         attemptFinished ''B2'']
           init))) = 1"
proof -
  let ?vs = "[attemptStarted ''B'', attemptFinished ''B'', attemptStarted ''B2'',
              attemptFinished ''B2'']"
  have d: "doc_uri docX = Some ''x.feature''" by (simp add: docX_def)
  have s: "sameDocument exampleEnv docX ?vs"
    by (simp add: sameDocument_def startedAttempt_def example_defs strOr_def)
  have r: "sameRule exampleEnv ''r1'' ?vs"
    by (simp add: sameRule_def startedAttempt_def attemptRule_def example_defs strOr_def
          lookup_def index0_def)
  have t: "tracked (snd (run exampleEnv ?vs init)) =
             (Some ''x.feature'', Some ''r1'', 2, [0], [2], [])"
    unfolding tracked_run tracked_init by (simp add: tracker_defs example_defs)
  have b: "itemCount FeatureKeyword (out (snd (run exampleEnv ?vs init))) \<le> 1
           \<and> itemCount RuleKeyword (out (snd (run exampleEnv ?vs init))) \<le> 1"
    using heads_once_per_run [OF d s, of init "''r1''"] r by (simp add: init_def itemCount_def)
  from d s r b tracked_parts(7,8) [OF t] show ?thesis by (simp del: run.simps)
qed

theorem heads_repeat_counterexample:
  "\<not> itemCount FeatureKeyword
        (out (snd (run exampleEnv
           [attemptStarted ''B'', attemptStarted ''D'', attemptStarted ''B2''] init)))
      \<le> length (documentsOf exampleEnv
           [attemptStarted ''B'', attemptStarted ''D'', attemptStarted ''B2''])
   \<and> \<not> itemCount RuleKeyword
        (out (snd (run exampleEnv
           [attemptStarted ''B'', attemptStarted ''D'', attemptStarted ''B2''] init)))
      \<le> length (rulesOf exampleEnv
           [attemptStarted ''B'', attemptStarted ''D'', attemptStarted ''B2''])"
proof -
  let ?vs = "[attemptStarted ''B'', attemptStarted ''D'', attemptStarted ''B2'']"
  have t: "tracked (snd (run exampleEnv ?vs init)) =
             (Some ''x.feature'', Some ''r1'', 2, [0, 0, 0], [2, 2], [2])"
    unfolding tracked_run tracked_init by (simp add: tracker_defs example_defs)
  have d: "length (documentsOf exampleEnv ?vs) = 2"
    by (simp add: documentsOf_def map_filter_simps startedAttempt_def example_defs strOr_def)
  have r: "length (rulesOf exampleEnv ?vs) = 1"
    by (simp add: rulesOf_def map_filter_simps startedAttempt_def attemptRule_def example_defs
          strOr_def lookup_def index0_def)
  from d r tracked_parts(7,8) [OF t] show ?thesis by (simp del: run.simps)
qed







text \<open>
  C4. Handling a scenario-attempt-started raises an error if and only if the pickle
  has no linked AST node identifiers. The code raises for a pickle with identifiers
  too, in a document with a feature: the first identifier is not a key of the scenario
  lookup, and \<open>renderScenarioHead\<close> reads \<open>scenario.keyword\<close> of \<open>undefined\<close>,
  three lines before it tests \<open>gherkinScenarioMap[pickle.astNodeIds[0]]\<close>. The
  attempt \<open>O\<close> of the example has the identifier \<open>s9\<close>, which the document does
  not have.
\<close>

theorem dangling_scenario_raises:
  "getTestCaseAttempt exampleEnv ''O'' = Some (attemptOf docX (pickleOf (Some [''s9'']) ''O''))
   \<and> pickle_astNodeIds (pickleOf (Some [''s9'']) ''O'') = Some [''s9'']
   \<and> fst (onTestCaseStarted exampleEnv \<lparr>testCaseStarted_id = Some ''O''\<rparr> init)
       = Some TypeError"
  by (simp add: fst_onTestCaseStarted startedError_def example_defs strOr_def lookup_def
        index0_def)

text \<open>
  C5. A step-finished whose result has no status, or the status passed, writes
  nothing. With any other status it writes one status line, the mark of the status, a
  space and the lower-case name of the status, all through the colour function of the
  status, as a \<open>StepStatus\<close> item followed by a line end; and after it one message
  line, the message as a \<open>StepMessage\<close> item followed by a line end, exactly when
  the result has a message (a message that is present and not the empty string, which
  is what \<open>if (message)\<close> tests). The fields of the formatter stay as they were.
\<close>

theorem step_finished_lines:
  "(\<forall>r st. testStepFinished_testStepResult ev = Some r \<and> result_status r = Some st
            \<and> st \<noteq> PASSED \<longrightarrow>
        onTestStepFinished e ev fm =
          log ([logItem fm StepStatus
                  [colorForStatus e st (marks e st @ '' '' @ lowerName st)],
                Raw (EOL e)]
               @ (case result_message r of
                    None \<Rightarrow> []
                  | Some m \<Rightarrow>
                      if m = [] then [] else [logItem fm StepMessage [m], Raw (EOL e)]))
            fm)
   \<and> ((\<forall>r. testStepFinished_testStepResult ev = Some r \<longrightarrow>
             result_status r = None \<or> result_status r = Some PASSED) \<longrightarrow>
        onTestStepFinished e ev fm = fm)"
  by (auto simp add: onTestStepFinished_def Let_def newline_def toLowerCase_statusName
        split: option.splits)

theorem step_finished_lines_witness:
  "out (onTestStepFinished exampleEnv
          \<lparr>testStepFinished_testCaseStartedId = Some ''A'',
           testStepFinished_testStepId = Some ''step1'',
           testStepFinished_testStepResult =
             Some \<lparr>result_message = Some ''boom'', result_status = Some FAILED\<rparr>\<rparr> init)
     = [Styled 4 StepStatus [''x failed''], Raw [CHR 0x0A],
        Styled 6 StepMessage [''boom''], Raw [CHR 0x0A]]
   \<and> out (onTestStepFinished exampleEnv
          \<lparr>testStepFinished_testCaseStartedId = Some ''A'',
           testStepFinished_testStepId = Some ''step1'',
           testStepFinished_testStepResult =
             Some \<lparr>result_message = None, result_status = Some SKIPPED\<rparr>\<rparr> init)
     = [Styled 4 StepStatus [''- skipped''], Raw [CHR 0x0A]]
   \<and> onTestStepFinished exampleEnv
          \<lparr>testStepFinished_testCaseStartedId = Some ''A'',
           testStepFinished_testStepId = Some ''step1'',
           testStepFinished_testStepResult = Some passedResult\<rparr> init
     = init"
  using
    step_finished_lines [of
      "\<lparr>testStepFinished_testCaseStartedId = Some ''A'',
        testStepFinished_testStepId = Some ''step1'',
        testStepFinished_testStepResult =
          Some \<lparr>result_message = Some ''boom'', result_status = Some FAILED\<rparr>\<rparr>"
      exampleEnv init]
    step_finished_lines [of
      "\<lparr>testStepFinished_testCaseStartedId = Some ''A'',
        testStepFinished_testStepId = Some ''step1'',
        testStepFinished_testStepResult =
          Some \<lparr>result_message = None, result_status = Some SKIPPED\<rparr>\<rparr>"
      exampleEnv init]
    step_finished_lines [of
      "\<lparr>testStepFinished_testCaseStartedId = Some ''A'',
        testStepFinished_testStepId = Some ''step1'',
        testStepFinished_testStepResult = Some passedResult\<rparr>"
      exampleEnv init]
  by (simp add: example_defs logItem_def styleItem_def init_def)

text \<open>
  C6. As stated: a step-started whose runtime step cannot be resolved to a source step
  is skipped without text and without error. The handler guards two cases only, a
  runtime step that is not among the steps of the test case and one without a pickle
  step identifier (a hook); a runtime step whose pickle step identifier, or whose first
  AST node identifier, is missing from the lookups makes it read a property of
  \<open>undefined\<close>, and for a document without a feature the lookup of the source
  steps raises before the handler has looked at the runtime step at all.

  What holds, for a step-started of a known attempt: when the document has a feature,
  the step is skipped, no text and no error, exactly when its runtime step is not among
  the steps of the test case or has no pickle step identifier (none, or the empty
  string); when the document has no feature, the handler raises and writes nothing.
\<close>

theorem step_without_pickle_step_skipped:
  assumes "getTestCaseAttempt e (strOr (testStepStarted_testCaseStartedId ev) '''') = Some att"
  shows "(doc_feature (attempt_gherkinDocument att) \<noteq> None \<longrightarrow>
            (onTestStepStarted e ev fm = (None, fm)) = (pickleStepIdOf att ev = None))
       \<and> (doc_feature (attempt_gherkinDocument att) = None \<longrightarrow>
            onTestStepStarted e ev fm = (Some TypeError, fm))"
  using assms
  by (auto simp add: onTestStepStarted_def gherkinLookup_def pickleStepIdOf_def Let_def
        log_same split: option.splits if_splits)

theorem step_without_pickle_step_skipped_witness:
  "getTestCaseAttempt exampleEnv ''A'' = Some (attemptOf docX (pickleOf (Some [''s1'']) ''S1''))
   \<and> doc_feature docX = Some featureF
   \<and> pickleStepIdOf (attemptOf docX (pickleOf (Some [''s1'']) ''S1''))
        \<lparr>testStepStarted_testCaseStartedId = Some ''A'',
         testStepStarted_testStepId = Some ''hook1''\<rparr> = None
   \<and> onTestStepStarted exampleEnv
        \<lparr>testStepStarted_testCaseStartedId = Some ''A'',
         testStepStarted_testStepId = Some ''hook1''\<rparr> init = (None, init)
   \<and> pickleStepIdOf (attemptOf docX (pickleOf (Some [''s1'']) ''S1''))
        \<lparr>testStepStarted_testCaseStartedId = Some ''A'',
         testStepStarted_testStepId = Some ''step1''\<rparr> = Some ''ps1''
   \<and> onTestStepStarted exampleEnv
        \<lparr>testStepStarted_testCaseStartedId = Some ''A'',
         testStepStarted_testStepId = Some ''step1''\<rparr> init \<noteq> (None, init)
   \<and> getTestCaseAttempt exampleEnv ''E'' = Some (attemptOf docZ (pickleOf (Some [''u1'']) ''U1''))
   \<and> doc_feature docZ = None
   \<and> onTestStepStarted exampleEnv
        \<lparr>testStepStarted_testCaseStartedId = Some ''E'',
         testStepStarted_testStepId = Some ''step1''\<rparr> init = (Some TypeError, init)"
proof -
  let ?att = "attemptOf docX (pickleOf (Some [''s1'']) ''S1'')"
  let ?attE = "attemptOf docZ (pickleOf (Some [''u1'']) ''U1'')"
  let ?hook = "\<lparr>testStepStarted_testCaseStartedId = Some ''A'',
                testStepStarted_testStepId = Some ''hook1''\<rparr>"
  let ?step = "\<lparr>testStepStarted_testCaseStartedId = Some ''A'',
                testStepStarted_testStepId = Some ''step1''\<rparr>"
  let ?stepE = "\<lparr>testStepStarted_testCaseStartedId = Some ''E'',
                 testStepStarted_testStepId = Some ''step1''\<rparr>"
  have a: "getTestCaseAttempt exampleEnv ''A'' = Some ?att"
    and e: "getTestCaseAttempt exampleEnv ''E'' = Some ?attE"
    by (simp_all add: example_defs)
  have ah: "getTestCaseAttempt exampleEnv (strOr (testStepStarted_testCaseStartedId ?hook) '''')
              = Some ?att"
    and as: "getTestCaseAttempt exampleEnv (strOr (testStepStarted_testCaseStartedId ?step) '''')
              = Some ?att"
    and ae: "getTestCaseAttempt exampleEnv (strOr (testStepStarted_testCaseStartedId ?stepE) '''')
              = Some ?attE"
    by (simp_all add: example_defs strOr_def)
  have fx: "doc_feature docX = Some featureF" and fz: "doc_feature docZ = None"
    by (simp_all add: example_defs)
  have f: "doc_feature (attempt_gherkinDocument ?att) \<noteq> None"
    and nf: "doc_feature (attempt_gherkinDocument ?attE) = None"
    by (simp_all add: example_defs)
  have h: "pickleStepIdOf ?att ?hook = None"
    and s: "pickleStepIdOf ?att ?step = Some ''ps1''"
    by (simp_all add: pickleStepIdOf_def example_defs listOr_def)
  from a e fx fz f nf h s step_without_pickle_step_skipped [OF ah, of init]
    step_without_pickle_step_skipped [OF as, of init]
    step_without_pickle_step_skipped [OF ae, of init]
  show ?thesis by simp
qed

theorem dangling_step_raises_counterexample:
  "sourceStep exampleEnv
     \<lparr>testStepStarted_testCaseStartedId = Some ''A'',
      testStepStarted_testStepId = Some ''step9''\<rparr> = None
   \<and> onTestStepStarted exampleEnv
        \<lparr>testStepStarted_testCaseStartedId = Some ''A'',
         testStepStarted_testStepId = Some ''step9''\<rparr> init = (Some TypeError, init)
   \<and> sourceStep exampleEnv
        \<lparr>testStepStarted_testCaseStartedId = Some ''E'',
         testStepStarted_testStepId = Some ''hook1''\<rparr> = None
   \<and> onTestStepStarted exampleEnv
        \<lparr>testStepStarted_testCaseStartedId = Some ''E'',
         testStepStarted_testStepId = Some ''hook1''\<rparr> init = (Some TypeError, init)"
  by (simp add: sourceStep_def onTestStepStarted_def gherkinLookup_def example_defs strOr_def
        listOr_def)

lemma resolved_scenario_head:
  assumes "doc_feature doc = Some f"
    and "pickle_astNodeIds p = Some ids"
    and "lookup (getGherkinScenarioMap e doc) (index0 ids) = Some sc"
  shows "renderScenarioHead e fm doc p =
           (None,
            renderTags e fm 2 (listOr (pickle_tags p))
            @ [logItem fm ScenarioKeyword [strOr (scenario_keyword sc) ''???'', '':''],
               Raw '' '',
               logItem fm ScenarioName [strOr (pickle_name p) ''''],
               Raw '' '']
            @ renderLocation e fm
                (numOr (case scenario_location sc of
                          None \<Rightarrow> None
                        | Some loc \<Rightarrow> location_line loc) (- 1))
            @ [Raw (EOL e)])"
  using assms by (simp add: renderScenarioHead_def gherkinLookup_def newline_def)

text \<open>
  C7. The scenario head is rendered for every started attempt, with the location
  reference exactly when the scenario's source node resolves, and without one, and
  without error, when it does not. The code tests the lookup before the location
  reference, and falls back to the keyword \<open>???\<close>, but it reads \<open>scenario.keyword\<close>
  first: for a pickle whose first identifier is not a key of the scenario lookup,
  \<open>renderScenarioHead\<close> raises after the tag line and writes no head.
\<close>

theorem unresolved_scenario_head_raises:
  "lookup (getGherkinScenarioMap exampleEnv docX) (index0 [''s9'']) = None
   \<and> renderScenarioHead exampleEnv init docX (pickleOf (Some [''s9'']) ''O'')
       = (Some TypeError, [])"
  by (simp add: renderScenarioHead_def gherkinLookup_def renderTags_def example_defs
        listOr_def lookup_def index0_def)

lemma renderScenarioHead_fields:
  assumes "uri fm = uri fm'" and "indentOffset fm = indentOffset fm'"
  shows "renderScenarioHead e fm doc p = renderScenarioHead e fm' doc p"
proof -
  have 1: "styleItem fm = styleItem fm'"
    using assms by (simp add: fun_eq_iff styleItem_def)
  have 2: "logItem fm = logItem fm'"
    by (simp add: fun_eq_iff logItem_def 1)
  have 3: "renderLocation e fm = renderLocation e fm'"
    using assms by (simp add: fun_eq_iff renderLocation_def 2)
  show ?thesis
    unfolding renderScenarioHead_def renderTags_def 1 2 3 ..
qed

text \<open>
  C8. The stream of one attempt \<open>a\<close>: started, its step \<open>s\<close> started, the step
  finished with the status passed, the attempt finished. The document has a URI and a
  feature, the scenario resolves and has no rule, and the step resolves to the source
  step \<open>Given\<close> with the text \<open>a\<close>, no doc string and no data table. The run does
  not raise, and its output is the feature head, the scenario head, the step line and
  one line end, both heads rendered with the offset 0 and the document's URI; no rule
  head and no status line is in it.
\<close>

theorem single_scenario_stream_output:
  assumes a: "getTestCaseAttempt e a = Some att"
    and u: "doc_uri (attempt_gherkinDocument att) = Some u"
    and f: "doc_feature (attempt_gherkinDocument att) = Some f"
    and ids: "pickle_astNodeIds (attempt_pickle att) = Some (sid # ids)"
    and norule: "getGherkinExampleRuleMap e (attempt_gherkinDocument att) sid = None"
    and sc: "getGherkinScenarioMap e (attempt_gherkinDocument att) sid = Some sc"
    and psid: "pickleStepIdOf att
                 \<lparr>testStepStarted_testCaseStartedId = Some a,
                  testStepStarted_testStepId = Some s\<rparr> = Some psid"
    and ps: "getPickleStepMap e (attempt_pickle att) psid = Some ps"
    and stid: "pickleStep_astNodeIds ps = stid # stids"
    and gs: "getGherkinStepMap e (attempt_gherkinDocument att) stid = Some gs"
    and step: "step_keyword gs = ''Given''" "pickleStep_text ps = ''a''"
      "step_docString gs = None" "step_dataTable gs = None"
  shows "run e [attemptStarted a, stepStarted a s, stepFinished a s passedResult,
                attemptFinished a] init =
           (None,
            \<lparr>uri = Some u, lastRuleId = None, indentOffset = 0,
             out = renderFeatureHead e (resetFor (attempt_gherkinDocument att) init) f
                   @ snd (renderScenarioHead e (resetFor (attempt_gherkinDocument att) init)
                            (attempt_gherkinDocument att) (attempt_pickle att))
                   @ [Styled 4 StepKeyword [''Given''], Raw '' '', Styled 0 StepText [''a''],
                      Raw (EOL e)]
                   @ [Raw (EOL e)]\<rparr>)
       \<and> fst (renderScenarioHead e (resetFor (attempt_gherkinDocument att) init)
                 (attempt_gherkinDocument att) (attempt_pickle att)) = None
       \<and> itemCount RuleKeyword
           (out (snd (run e [attemptStarted a, stepStarted a s, stepFinished a s passedResult,
                             attemptFinished a] init))) = 0
       \<and> itemCount RuleName
           (out (snd (run e [attemptStarted a, stepStarted a s, stepFinished a s passedResult,
                             attemptFinished a] init))) = 0
       \<and> itemCount StepStatus
           (out (snd (run e [attemptStarted a, stepStarted a s, stepFinished a s passedResult,
                             attemptFinished a] init))) = 0"
proof -
  let ?doc = "attempt_gherkinDocument att"
  let ?p = "attempt_pickle att"
  let ?r0 = "resetFor ?doc init"
  let ?head = "renderFeatureHead e ?r0 f"
  let ?scenario = "snd (renderScenarioHead e ?r0 ?doc ?p)"
  let ?line = "[Styled 4 StepKeyword [''Given''], Raw '' '', Styled 0 StepText [''a''],
                Raw (EOL e)]"
  let ?fm1 = "log ?scenario (log ?head ?r0)"
  let ?fm2 = "log ?line ?fm1"
  let ?fm4 = "log [Raw (EOL e)] ?fm2"
  have a': "getTestCaseAttempt e (strOr (testCaseStarted_id \<lparr>testCaseStarted_id = Some a\<rparr>) '''')
              = Some att"
    using a by simp
  have doc1: "afterDocument e ?doc init = log ?head ?r0"
    using u f by (simp add: afterDocument_def init_def)
  have rule: "attemptRule e att = None"
    using ids norule by (simp add: attemptRule_def lookup_def index0_def)
  have ok: "fst (renderScenarioHead e fm ?doc ?p) = None" for fm
    using f ids sc by (simp add: fst_renderScenarioHead lookup_def index0_def)
  have same: "renderScenarioHead e (log ?head ?r0) ?doc ?p = renderScenarioHead e ?r0 ?doc ?p"
    by (rule renderScenarioHead_fields) simp_all
  have started: "onTestCaseStarted e \<lparr>testCaseStarted_id = Some a\<rparr> init = (None, ?fm1)"
    using f ids ok
    by (simp add: onTestCaseStarted_steps [OF a'] Let_def doc1 rule afterRule_def same)
  have s1: "parseEnvelope e (attemptStarted a) init = (None, ?fm1)"
    by (simp add: parseEnvelope_def attemptStarted_def started)
  from psid obtain ts where ts:
    "find (\<lambda>item. testStep_id item = Some s) (listOr (testCase_testSteps (attempt_testCase att)))
       = Some ts"
    "testStep_pickleStepId ts = Some psid" "psid \<noteq> []"
    by (auto simp add: pickleStepIdOf_def split: option.splits if_splits)
  have stepStarted:
    "onTestStepStarted e
       \<lparr>testStepStarted_testCaseStartedId = Some a, testStepStarted_testStepId = Some s\<rparr> ?fm1
     = (None, ?fm2)"
    using a f ts ps stid gs step
    by (simp add: onTestStepStarted_def gherkinLookup_def Let_def lookup_def index0_def
          logItem_def styleItem_def newline_def)
  have s2: "parseEnvelope e (stepStarted a s) ?fm1 = (None, ?fm2)"
    by (simp add: parseEnvelope_def stepStarted_def stepStarted)
  have s3: "parseEnvelope e (stepFinished a s passedResult) ?fm2 = (None, ?fm2)"
    by (simp add: parseEnvelope_def stepFinished_def passedResult_def onTestStepFinished_def)
  have s4: "parseEnvelope e (attemptFinished a) ?fm2 = (None, ?fm4)"
    by (simp add: parseEnvelope_def attemptFinished_def onTestCaseFinished_def newline_def)
  have r: "run e [attemptStarted a, stepStarted a s, stepFinished a s passedResult,
                  attemptFinished a] init = (None, ?fm4)"
    by (simp add: s1 s2 s3 s4)
  have fm4: "?fm4 =
      \<lparr>uri = Some u, lastRuleId = None, indentOffset = 0,
       out = ?head @ ?scenario @ ?line @ [Raw (EOL e)]\<rparr>"
    using u by (simp add: log_def resetFor_def init_def)
  have none: "itemCount RuleKeyword (out ?fm4) = 0" "itemCount RuleName (out ?fm4) = 0"
    "itemCount StepStatus (out ?fm4) = 0"
    by (simp_all add: itemCount_def init_def)
  show ?thesis
    unfolding r using fm4 ok none by simp
qed

theorem single_scenario_stream_output_witness:
  "run exampleEnv
     [attemptStarted ''A'', stepStarted ''A'' ''step1'',
      stepFinished ''A'' ''step1'' passedResult, attemptFinished ''A''] init =
     (None,
      \<lparr>uri = Some ''x.feature'', lastRuleId = None, indentOffset = 0,
       out = [Styled 0 FeatureKeyword [''Feature'', '':''], Raw '' '',
              Styled 0 FeatureName [''F''], Raw '' '',
              Styled 0 Location [''# '', ''x.feature''], Raw [CHR 0x0A], Raw [CHR 0x0A],
              Styled 2 ScenarioKeyword [''Scenario'', '':''], Raw '' '',
              Styled 0 ScenarioName [''S1''], Raw '' '',
              Styled 0 Location [''# '', ''x.feature''], Raw [CHR 0x0A],
              Styled 4 StepKeyword [''Given''], Raw '' '', Styled 0 StepText [''a''],
              Raw [CHR 0x0A],
              Raw [CHR 0x0A]]\<rparr>)
   \<and> written exampleEnv
        (snd (run exampleEnv
           [attemptStarted ''A'', stepStarted ''A'' ''step1'',
            stepFinished ''A'' ''step1'' passedResult, attemptFinished ''A''] init)) =
       ''Feature: F # x.feature'' @ [CHR 0x0A, CHR 0x0A]
       @ ''  Scenario: S1 # x.feature'' @ [CHR 0x0A]
       @ ''    Given a'' @ [CHR 0x0A, CHR 0x0A]"
proof -
  let ?att = "attemptOf docX (pickleOf (Some [''s1'']) ''S1'')"
  have a: "getTestCaseAttempt exampleEnv ''A'' = Some ?att"
    and u: "doc_uri (attempt_gherkinDocument ?att) = Some ''x.feature''"
    and f: "doc_feature (attempt_gherkinDocument ?att) = Some featureF"
    and ids: "pickle_astNodeIds (attempt_pickle ?att) = Some (''s1'' # [])"
    and norule: "getGherkinExampleRuleMap exampleEnv (attempt_gherkinDocument ?att) ''s1'' = None"
    and sc: "getGherkinScenarioMap exampleEnv (attempt_gherkinDocument ?att) ''s1''
               = Some (scenarioAt 3)"
    by (simp_all add: example_defs)
  have psid: "pickleStepIdOf ?att
                \<lparr>testStepStarted_testCaseStartedId = Some ''A'',
                 testStepStarted_testStepId = Some ''step1''\<rparr> = Some ''ps1''"
    by (simp add: pickleStepIdOf_def example_defs listOr_def)
  let ?ps = "\<lparr>pickleStep_astNodeIds = [''st1''], pickleStep_text = ''a''\<rparr>"
  let ?gs = "\<lparr>step_keyword = ''Given'', step_docString = None, step_dataTable = None\<rparr>"
  have ps: "getPickleStepMap exampleEnv (attempt_pickle ?att) ''ps1'' = Some ?ps"
    and stid: "pickleStep_astNodeIds ?ps = ''st1'' # []"
    and gs: "getGherkinStepMap exampleEnv (attempt_gherkinDocument ?att) ''st1'' = Some ?gs"
    and step: "step_keyword ?gs = ''Given''" "pickleStep_text ?ps = ''a''"
      "step_docString ?gs = None" "step_dataTable ?gs = None"
    by (simp_all add: example_defs)
  have heads:
    "renderFeatureHead exampleEnv (resetFor (attempt_gherkinDocument ?att) init) featureF =
       [Styled 0 FeatureKeyword [''Feature'', '':''], Raw '' '',
        Styled 0 FeatureName [''F''], Raw '' '',
        Styled 0 Location [''# '', ''x.feature''], Raw [CHR 0x0A], Raw [CHR 0x0A]]"
    "snd (renderScenarioHead exampleEnv (resetFor (attempt_gherkinDocument ?att) init)
            (attempt_gherkinDocument ?att) (attempt_pickle ?att)) =
       [Styled 2 ScenarioKeyword [''Scenario'', '':''], Raw '' '',
        Styled 0 ScenarioName [''S1''], Raw '' '',
        Styled 0 Location [''# '', ''x.feature''], Raw [CHR 0x0A]]"
    "EOL exampleEnv = [CHR 0x0A]"
    by (simp_all add: example_defs resetFor_def renderFeatureHead_def renderScenarioHead_def
          gherkinLookup_def renderTags_def renderLocation_def logItem_def styleItem_def
          newline_def strOr_def numOr_def listOr_def index0_def lookup_def init_def)
  from single_scenario_stream_output [OF a u f ids norule sc psid ps stid gs step]
  have "run exampleEnv
          [attemptStarted ''A'', stepStarted ''A'' ''step1'',
           stepFinished ''A'' ''step1'' passedResult, attemptFinished ''A''] init =
          (None,
           \<lparr>uri = Some ''x.feature'', lastRuleId = None, indentOffset = 0,
            out = renderFeatureHead exampleEnv (resetFor (attempt_gherkinDocument ?att) init)
                    featureF
                  @ snd (renderScenarioHead exampleEnv
                           (resetFor (attempt_gherkinDocument ?att) init)
                           (attempt_gherkinDocument ?att) (attempt_pickle ?att))
                  @ [Styled 4 StepKeyword [''Given''], Raw '' '', Styled 0 StepText [''a''],
                     Raw (EOL exampleEnv)]
                  @ [Raw (EOL exampleEnv)]\<rparr>)"
    by (rule conjunct1)
  then have r:
    "run exampleEnv
       [attemptStarted ''A'', stepStarted ''A'' ''step1'',
        stepFinished ''A'' ''step1'' passedResult, attemptFinished ''A''] init =
       (None,
        \<lparr>uri = Some ''x.feature'', lastRuleId = None, indentOffset = 0,
         out = [Styled 0 FeatureKeyword [''Feature'', '':''], Raw '' '',
                Styled 0 FeatureName [''F''], Raw '' '',
                Styled 0 Location [''# '', ''x.feature''], Raw [CHR 0x0A], Raw [CHR 0x0A],
                Styled 2 ScenarioKeyword [''Scenario'', '':''], Raw '' '',
                Styled 0 ScenarioName [''S1''], Raw '' '',
                Styled 0 Location [''# '', ''x.feature''], Raw [CHR 0x0A],
                Styled 4 StepKeyword [''Given''], Raw '' '', Styled 0 StepText [''a''],
                Raw [CHR 0x0A],
                Raw [CHR 0x0A]]\<rparr>)"
    unfolding heads by simp
  show ?thesis
    unfolding r by (simp add: written_def exampleEnv_def numeral_2_eq_2 numeral_Bit0)
qed

text \<open>
  C9. For a started attempt that resolves, the error \<open>Pickle AST nodes missing\<close> is
  raised only when the pickle has no \<open>astNodeIds\<close> field, and then exactly when the
  document has a feature (without one the lookup of the rules raises first, on line
  163). With the empty list the field is there: the first element is \<open>undefined\<close>,
  the rule lookup and the scenario lookup find nothing, no rule head and no scenario
  line is written, and what the handler raises is another error, the read of
  \<open>scenario.keyword\<close> of \<open>undefined\<close> when the document has a feature.
\<close>

theorem empty_ast_ids_not_missing:
  assumes "getTestCaseAttempt e (strOr (testCaseStarted_id ev) '''') = Some att"
  shows "(fst (onTestCaseStarted e ev fm) = Some (Error ''Pickle AST nodes missing''))
           = (pickle_astNodeIds (attempt_pickle att) = None
              \<and> doc_feature (attempt_gherkinDocument att) \<noteq> None)
       \<and> (pickle_astNodeIds (attempt_pickle att) = Some [] \<longrightarrow>
            attemptRule e att = None
            \<and> lookup (getGherkinScenarioMap e (attempt_gherkinDocument att)) (index0 []) = None
            \<and> fst (onTestCaseStarted e ev fm) = Some TypeError
            \<and> itemCount RuleKeyword (out (snd (onTestCaseStarted e ev fm)))
                = itemCount RuleKeyword (out fm)
            \<and> itemCount ScenarioKeyword (out (snd (onTestCaseStarted e ev fm)))
                = itemCount ScenarioKeyword (out fm))"
proof -
  let ?doc = "attempt_gherkinDocument att"
  have 1: "(fst (onTestCaseStarted e ev fm) = Some (Error ''Pickle AST nodes missing''))
             = (pickle_astNodeIds (attempt_pickle att) = None \<and> doc_feature ?doc \<noteq> None)"
    using assms by (auto simp add: fst_onTestCaseStarted startedError_def split: option.splits)
  have 2: "attemptRule e att = None"
    "lookup (getGherkinScenarioMap e ?doc) (index0 []) = None"
    "fst (onTestCaseStarted e ev fm) = Some TypeError"
    "itemCount RuleKeyword (out (snd (onTestCaseStarted e ev fm)))
       = itemCount RuleKeyword (out fm)"
    "itemCount ScenarioKeyword (out (snd (onTestCaseStarted e ev fm)))
       = itemCount ScenarioKeyword (out fm)"
    if empty: "pickle_astNodeIds (attempt_pickle att) = Some []"
  proof -
    show r: "attemptRule e att = None"
      using empty by (simp add: attemptRule_def lookup_def index0_def)
    show "lookup (getGherkinScenarioMap e ?doc) (index0 []) = None"
      by (simp add: lookup_def index0_def)
    show "fst (onTestCaseStarted e ev fm) = Some TypeError"
      using assms empty
      by (simp add: fst_onTestCaseStarted startedError_def lookup_def index0_def
            split: option.splits)
    have s: "snd (renderScenarioHead e fm' ?doc (attempt_pickle att))
               = renderTags e fm' 2 (listOr (pickle_tags (attempt_pickle att)))" for fm'
      using empty
      by (simp add: renderScenarioHead_def gherkinLookup_def lookup_def index0_def
            split: option.splits)
    have o: "out (snd (onTestCaseStarted e ev fm)) =
               (if doc_feature ?doc = None then out fm
                else out (afterDocument e ?doc fm)
                     @ renderTags e (afterDocument e ?doc fm) 2
                         (listOr (pickle_tags (attempt_pickle att))))"
      using empty by (simp add: onTestCaseStarted_steps [OF assms] Let_def r afterRule_def s)
    show "itemCount RuleKeyword (out (snd (onTestCaseStarted e ev fm)))
            = itemCount RuleKeyword (out fm)"
      by (simp add: o itemCount_def afterDocument_out split: option.splits)
    show "itemCount ScenarioKeyword (out (snd (onTestCaseStarted e ev fm)))
            = itemCount ScenarioKeyword (out fm)"
      by (simp add: o itemCount_def afterDocument_out split: option.splits)
  qed
  from 1 2 show ?thesis by blast
qed

theorem empty_ast_ids_not_missing_witness:
  "getTestCaseAttempt exampleEnv ''N'' = Some (attemptOf docX (pickleOf (Some []) ''N''))
   \<and> pickle_astNodeIds (attempt_pickle (attemptOf docX (pickleOf (Some []) ''N''))) = Some []
   \<and> fst (onTestCaseStarted exampleEnv \<lparr>testCaseStarted_id = Some ''N''\<rparr> init)
       = Some TypeError
   \<and> itemCount ScenarioKeyword
        (out (snd (onTestCaseStarted exampleEnv \<lparr>testCaseStarted_id = Some ''N''\<rparr> init))) = 0
   \<and> getTestCaseAttempt exampleEnv ''M'' = Some (attemptOf docX (pickleOf None ''M''))
   \<and> doc_feature docX = Some featureF
   \<and> fst (onTestCaseStarted exampleEnv \<lparr>testCaseStarted_id = Some ''M''\<rparr> init)
       = Some (Error ''Pickle AST nodes missing'')"
proof -
  let ?n = "attemptOf docX (pickleOf (Some []) ''N'')"
  let ?m = "attemptOf docX (pickleOf None ''M'')"
  have n: "getTestCaseAttempt exampleEnv
             (strOr (testCaseStarted_id \<lparr>testCaseStarted_id = Some ''N''\<rparr>) '''') = Some ?n"
    and m: "getTestCaseAttempt exampleEnv
             (strOr (testCaseStarted_id \<lparr>testCaseStarted_id = Some ''M''\<rparr>) '''') = Some ?m"
    by (simp_all add: example_defs strOr_def)
  have e: "pickle_astNodeIds (attempt_pickle ?n) = Some []"
    and nm: "pickle_astNodeIds (attempt_pickle ?m) = None"
    and f: "doc_feature docX = Some featureF"
    and fm: "doc_feature (attempt_gherkinDocument ?m) \<noteq> None"
    by (simp_all add: example_defs)
  from empty_ast_ids_not_missing [OF n, of init] empty_ast_ids_not_missing [OF m, of init]
    n m e nm f fm
  show ?thesis by (simp add: itemCount_def init_def)
qed

text \<open>
  C10. When the handler raises \<open>Pickle AST nodes missing\<close> for an attempt whose
  document URI differs from the tracked one and whose document has a feature, the
  reset and the feature head have already happened: the formatter it leaves has the new
  URI, no rule identifier, the offset 0, and the feature head at the end of its output.
\<close>

theorem missing_ast_ids_after_feature_head:
  assumes "getTestCaseAttempt e (strOr (testCaseStarted_id ev) '''') = Some att"
    and "uri fm \<noteq> doc_uri (attempt_gherkinDocument att)"
    and "doc_feature (attempt_gherkinDocument att) = Some f"
    and "pickle_astNodeIds (attempt_pickle att) = None"
  shows "onTestCaseStarted e ev fm =
           (Some (Error ''Pickle AST nodes missing''),
            log (renderFeatureHead e (resetFor (attempt_gherkinDocument att) fm) f)
              (resetFor (attempt_gherkinDocument att) fm))
       \<and> out (snd (onTestCaseStarted e ev fm)) =
           out fm @ renderFeatureHead e (resetFor (attempt_gherkinDocument att) fm) f
       \<and> itemCount FeatureKeyword (out (snd (onTestCaseStarted e ev fm)))
           = itemCount FeatureKeyword (out fm) + 1
       \<and> uri (snd (onTestCaseStarted e ev fm))
           = Some (strOr (doc_uri (attempt_gherkinDocument att)) '''')
       \<and> lastRuleId (snd (onTestCaseStarted e ev fm)) = None
       \<and> indentOffset (snd (onTestCaseStarted e ev fm)) = 0
       \<and> snd (onTestCaseStarted e ev fm) \<noteq> fm"
proof -
  let ?r = "resetFor (attempt_gherkinDocument att) fm"
  have r: "onTestCaseStarted e ev fm =
             (Some (Error ''Pickle AST nodes missing''), log (renderFeatureHead e ?r f) ?r)"
    using assms(2,3,4)
    by (simp add: onTestCaseStarted_steps [OF assms(1)] afterDocument_def Let_def)
  have n: "itemCount FeatureKeyword (out (log (renderFeatureHead e ?r f) ?r))
             = itemCount FeatureKeyword (out fm) + 1"
    by (simp add: itemCount_def)
  have "log (renderFeatureHead e ?r f) ?r \<noteq> fm"
  proof
    assume "log (renderFeatureHead e ?r f) ?r = fm"
    then have "out (log (renderFeatureHead e ?r f) ?r) = out fm" by simp
    with n show False by simp
  qed
  with n show ?thesis unfolding r by simp
qed

theorem missing_ast_ids_after_feature_head_witness:
  "onTestCaseStarted exampleEnv \<lparr>testCaseStarted_id = Some ''M''\<rparr> init =
     (Some (Error ''Pickle AST nodes missing''),
      \<lparr>uri = Some ''x.feature'', lastRuleId = None, indentOffset = 0,
       out = [Styled 0 FeatureKeyword [''Feature'', '':''], Raw '' '',
              Styled 0 FeatureName [''F''], Raw '' '',
              Styled 0 Location [''# '', ''x.feature''], Raw [CHR 0x0A], Raw [CHR 0x0A]]\<rparr>)"
proof -
  let ?m = "attemptOf docX (pickleOf None ''M'')"
  have m: "getTestCaseAttempt exampleEnv
             (strOr (testCaseStarted_id \<lparr>testCaseStarted_id = Some ''M''\<rparr>) '''') = Some ?m"
    by (simp add: example_defs strOr_def)
  have u: "uri init \<noteq> doc_uri (attempt_gherkinDocument ?m)"
    and f: "doc_feature (attempt_gherkinDocument ?m) = Some featureF"
    and n: "pickle_astNodeIds (attempt_pickle ?m) = None"
    by (simp_all add: example_defs init_def)
  have "onTestCaseStarted exampleEnv \<lparr>testCaseStarted_id = Some ''M''\<rparr> init =
          (Some (Error ''Pickle AST nodes missing''),
           log (renderFeatureHead exampleEnv (resetFor (attempt_gherkinDocument ?m) init)
                  featureF)
             (resetFor (attempt_gherkinDocument ?m) init))"
    using missing_ast_ids_after_feature_head [OF m u f n] by (rule conjunct1)
  then show ?thesis
    by (simp add: example_defs resetFor_def renderFeatureHead_def renderTags_def
          renderLocation_def logItem_def styleItem_def newline_def strOr_def numOr_def
          listOr_def log_def init_def)
qed

end
